theory Spec2Isabelle
  imports Complex_Main
begin

section \<open>Vector storage factory: configuration resolution and collection orchestration\<close>

text \<open>
  A shallow embedding of \<^verbatim>\<open>src/core/vector_storage/factory.ts\<close>.  The module reads a
  centralized \<^verbatim>\<open>env\<close> object and an optional, untyped \<^verbatim>\<open>agentConfig\<close>, and
  produces a backend configuration object; from such a configuration it builds a collection
  manager, connects it and hands out its stores, behind a process-wide service cache.  The
  \<^verbatim>\<open>env\<close> object, the managers and the cache are imported from other modules: the
  first two are parameters of the functions here, the cache is modelled from its description.
\<close>

subsection \<open>JavaScript values\<close>

text \<open>
  A JavaScript number is NaN, an infinity or a finite double.  Every finite double is a
  rational; the two zeros are identified, since the code only compares numbers with
  \<^verbatim>\<open>> 0\<close>, tests them for truthiness and passes them on.
\<close>

datatype jsnumber = NaN | Infinity | NegInfinity | Finite rat

text \<open>
  \<^verbatim>\<open>agentConfig\<close> has type \<^verbatim>\<open>any\<close>: a value of any shape.  It is a parsed
  configuration, so the values are those of a configuration file and \<^verbatim>\<open>undefined\<close>;
  functions, symbols and big integers are left out.  An object is the list of its own
  properties.
\<close>

datatype jsval =
    JSUndefined
  | JSNull
  | JSBoolean bool
  | JSNumber jsnumber
  | JSString string
  | JSObject "(string \<times> jsval) list"

text \<open>\<^verbatim>\<open>Number.isNaN(x)\<close> does not coerce: it is false for \<^verbatim>\<open>undefined\<close>.\<close>

definition Number_isNaN :: "jsnumber option \<Rightarrow> bool" where
  "Number_isNaN x = (x = Some NaN)"

text \<open>\<^verbatim>\<open>n > 0\<close> on a number.\<close>

definition gt_zero :: "jsnumber \<Rightarrow> bool" where
  "gt_zero n = (case n of Finite q \<Rightarrow> 0 < q | Infinity \<Rightarrow> True | _ \<Rightarrow> False)"

text \<open>Truthiness (\<^verbatim>\<open>ToBoolean\<close>).\<close>

definition truthy :: "jsval \<Rightarrow> bool" where
  "truthy v =
     (case v of
        JSUndefined \<Rightarrow> False
      | JSNull \<Rightarrow> False
      | JSBoolean b \<Rightarrow> b
      | JSNumber n \<Rightarrow> (case n of NaN \<Rightarrow> False | Finite q \<Rightarrow> q \<noteq> 0 | _ \<Rightarrow> True)
      | JSString s \<Rightarrow> s \<noteq> []
      | JSObject _ \<Rightarrow> True)"

definition typeof :: "jsval \<Rightarrow> string" where
  "typeof v =
     (case v of
        JSUndefined \<Rightarrow> ''undefined''
      | JSNull \<Rightarrow> ''object''
      | JSBoolean _ \<Rightarrow> ''boolean''
      | JSNumber _ \<Rightarrow> ''number''
      | JSString _ \<Rightarrow> ''string''
      | JSObject _ \<Rightarrow> ''object'')"

text \<open>
  Reading a property.  A missing property reads as \<^verbatim>\<open>undefined\<close>, and so does a property
  of a primitive (none of the modelled primitives has a property called \<^verbatim>\<open>embedding\<close>,
  \<^verbatim>\<open>dimensions\<close> or \<^verbatim>\<open>type\<close>).  On \<^verbatim>\<open>undefined\<close> and \<^verbatim>\<open>null\<close> the source reads
  only through \<^verbatim>\<open>?.\<close>, which yields \<^verbatim>\<open>undefined\<close> as well.
\<close>

definition getProp :: "jsval \<Rightarrow> string \<Rightarrow> jsval" where
  "getProp v k =
     (case v of
        JSObject ps \<Rightarrow> (case map_of ps k of Some x \<Rightarrow> x | None \<Rightarrow> JSUndefined)
      | _ \<Rightarrow> JSUndefined)"

text \<open>
  An optional string of the environment: \<^verbatim>\<open>undefined\<close> is \<open>None\<close>.  It is truthy
  when it is a non-empty string; \<^verbatim>\<open>a || b\<close> is \<open>a\<close> when \<open>a\<close> is truthy and \<open>b\<close>
  otherwise.
\<close>

definition truthy_str :: "string option \<Rightarrow> bool" where
  "truthy_str s = (case s of Some (_ # _) \<Rightarrow> True | _ \<Rightarrow> False)"

definition js_or :: "string option \<Rightarrow> string option \<Rightarrow> string option" where
  "js_or a b = (if truthy_str a then a else b)"

text \<open>\<^verbatim>\<open>a || 'literal'\<close>, which always is a string.\<close>

definition js_or_lit :: "string option \<Rightarrow> string \<Rightarrow> string" where
  "js_or_lit a d = (case a of Some (c # cs) \<Rightarrow> c # cs | _ \<Rightarrow> d)"

subsection \<open>The environment object\<close>

record env =
  VECTOR_STORE_TYPE :: "string option"
  VECTOR_STORE_COLLECTION :: "string option"
  VECTOR_STORE_DIMENSION :: "jsnumber option"
  VECTOR_STORE_MAX_VECTORS :: "jsnumber option"
  VECTOR_STORE_HOST :: "string option"
  VECTOR_STORE_URL :: "string option"
  VECTOR_STORE_PORT :: "jsnumber option"
  VECTOR_STORE_API_KEY :: "string option"
  VECTOR_STORE_DISTANCE :: "string option"
  VECTOR_STORE_ON_DISK :: "bool option"
  VECTOR_STORE_USERNAME :: "string option"
  VECTOR_STORE_PASSWORD :: "string option"
  PINECONE_NAMESPACE :: "string option"
  PINECONE_METRIC :: "string option"
  REFLECTION_VECTOR_STORE_COLLECTION :: "string option"
  USE_WORKSPACE_MEMORY :: "bool option"
  WORKSPACE_VECTOR_STORE_TYPE :: "string option"
  WORKSPACE_VECTOR_STORE_COLLECTION :: "string option"
  WORKSPACE_VECTOR_STORE_DIMENSION :: "jsnumber option"
  WORKSPACE_VECTOR_STORE_MAX_VECTORS :: "jsnumber option"
  WORKSPACE_VECTOR_STORE_HOST :: "string option"
  WORKSPACE_VECTOR_STORE_URL :: "string option"
  WORKSPACE_VECTOR_STORE_PORT :: "jsnumber option"
  WORKSPACE_VECTOR_STORE_API_KEY :: "string option"
  WORKSPACE_VECTOR_STORE_DISTANCE :: "string option"
  WORKSPACE_VECTOR_STORE_ON_DISK :: "bool option"
  WORKSPACE_VECTOR_STORE_USERNAME :: "string option"
  WORKSPACE_VECTOR_STORE_PASSWORD :: "string option"

subsection \<open>Backend configurations\<close>

text \<open>
  The object literals the resolvers return, one constructor for each \<^verbatim>\<open>type\<close> tag.  A
  field holding \<^verbatim>\<open>undefined\<close> is \<open>None\<close>.  The in-memory object has the key
  \<^verbatim>\<open>_fallbackFrom\<close> only when it replaces a remote backend.  The chroma object's
  \<^verbatim>\<open>headers\<close> is always \<^verbatim>\<open>undefined\<close>.
\<close>

datatype VectorStoreConfig =
    InMemoryConfig
      (collectionName: "string option") (dimension: jsnumber)
      (maxVectors: jsnumber) (fallbackFrom: "string option")
  | QdrantConfig
      (collectionName: "string option") (dimension: jsnumber)
      (url: "string option") (host: "string option") (port: "jsnumber option")
      (apiKey: "string option") (distance: "string option") (onDisk: "bool option")
  | MilvusConfig
      (collectionName: "string option") (dimension: jsnumber)
      (url: "string option") (host: "string option") (port: "jsnumber option")
      (username: "string option") (password: "string option") (token: "string option")
  | ChromaConfig
      (collectionName: "string option") (dimension: jsnumber)
      (url: "string option") (host: "string option") (port: "jsnumber option")
      (headers: "(string \<times> string) list option") (distance: "string option")
  | PineconeConfig
      (collectionName: "string option") (dimension: jsnumber)
      (apiKey: "string option") (indexName: "string option")
      (namespace: "string option") (metric: "string option")

text \<open>The \<^verbatim>\<open>type\<close> field of a configuration.\<close>

fun config_type :: "VectorStoreConfig \<Rightarrow> string" where
  "config_type (InMemoryConfig _ _ _ _) = ''in-memory''"
| "config_type (QdrantConfig _ _ _ _ _ _ _ _) = ''qdrant''"
| "config_type (MilvusConfig _ _ _ _ _ _ _ _) = ''milvus''"
| "config_type (ChromaConfig _ _ _ _ _ _ _) = ''chroma''"
| "config_type (PineconeConfig _ _ _ _ _ _) = ''pinecone''"

subsection \<open>String helpers\<close>

text \<open>
  \<^verbatim>\<open>toLowerCase\<close>, on the bytes of a string: the letters A to Z are mapped, every
  other byte stays.  The only character outside ASCII whose lower case is an ASCII letter is
  the Kelvin sign (to \<^verbatim>\<open>k\<close>), and no metric name the code compares with contains a
  \<^verbatim>\<open>k\<close>.
\<close>

definition lower_char :: "char \<Rightarrow> char" where
  "lower_char c =
     (case map_of (zip ''ABCDEFGHIJKLMNOPQRSTUVWXYZ'' ''abcdefghijklmnopqrstuvwxyz'') c of
        Some d \<Rightarrow> d
      | None \<Rightarrow> c)"

definition toLowerCase :: "string \<Rightarrow> string" where
  "toLowerCase s = map lower_char s"

subsection \<open>getVectorStoreConfigFromEnv\<close>

definition getVectorStoreConfigFromEnv :: "env \<Rightarrow> jsval \<Rightarrow> VectorStoreConfig" where
  "getVectorStoreConfigFromEnv e agentConfig =
     (let storeType = VECTOR_STORE_TYPE e;
          collectionName = VECTOR_STORE_COLLECTION e;
          dimension0 =
            (case VECTOR_STORE_DIMENSION e of
               Some n \<Rightarrow> if \<not> Number_isNaN (Some n) then n else Finite 1536
             | None \<Rightarrow> Finite 1536);
          maxVectors =
            (case VECTOR_STORE_MAX_VECTORS e of
               Some n \<Rightarrow> if \<not> Number_isNaN (Some n) then n else Finite 10000
             | None \<Rightarrow> Finite 10000);
          embedding =
            (case agentConfig of
               JSUndefined \<Rightarrow> JSUndefined
             | JSNull \<Rightarrow> JSUndefined
             | _ \<Rightarrow> getProp agentConfig ''embedding'');
          dimension =
            (if truthy embedding \<and> typeof embedding = ''object''
                \<and> truthy (getProp embedding ''dimensions'')
             then
               (case getProp embedding ''dimensions'' of
                  JSNumber embeddingDimension \<Rightarrow>
                    if gt_zero embeddingDimension then embeddingDimension else dimension0
                | _ \<Rightarrow> dimension0)
             else dimension0)
      in
        if storeType = Some ''qdrant'' then
          (let host = VECTOR_STORE_HOST e;
               url = VECTOR_STORE_URL e;
               port = (if Number_isNaN (VECTOR_STORE_PORT e) then None else VECTOR_STORE_PORT e);
               apiKey = VECTOR_STORE_API_KEY e;
               distance = VECTOR_STORE_DISTANCE e;
               onDisk = VECTOR_STORE_ON_DISK e
           in
             if \<not> truthy_str url \<and> \<not> truthy_str host
             then InMemoryConfig collectionName dimension maxVectors (Some ''qdrant'')
             else QdrantConfig collectionName dimension url host port apiKey distance onDisk)
        else if storeType = Some ''milvus'' then
          (let host = VECTOR_STORE_HOST e;
               url = VECTOR_STORE_URL e;
               port = (if Number_isNaN (VECTOR_STORE_PORT e) then None else VECTOR_STORE_PORT e);
               username = VECTOR_STORE_USERNAME e;
               password = VECTOR_STORE_PASSWORD e;
               token = VECTOR_STORE_API_KEY e
           in
             if \<not> truthy_str url \<and> \<not> truthy_str host
             then InMemoryConfig collectionName dimension maxVectors (Some ''milvus'')
             else MilvusConfig collectionName dimension url host port username password token)
        else if storeType = Some ''chroma'' then
          (let host = VECTOR_STORE_HOST e;
               url = VECTOR_STORE_URL e;
               port = (if Number_isNaN (VECTOR_STORE_PORT e) then None else VECTOR_STORE_PORT e);
               headers = None;
               envDistance = VECTOR_STORE_DISTANCE e;
               distance =
                 (case envDistance of
                    Some (c # cs) \<Rightarrow>
                      (let d = toLowerCase (c # cs) in
                         if d = ''cosine'' then ''cosine''
                         else if d = ''euclidean'' \<or> d = ''l2'' then ''l2''
                         else if d = ''dot'' \<or> d = ''ip'' then ''ip''
                         else ''cosine'')
                  | _ \<Rightarrow> ''cosine'')
           in
             if \<not> truthy_str url \<and> \<not> truthy_str host
             then InMemoryConfig collectionName dimension maxVectors (Some ''chroma'')
             else ChromaConfig collectionName dimension url host port headers (Some distance))
        else if storeType = Some ''pinecone'' then
          (let apiKey = VECTOR_STORE_API_KEY e;
               indexName = collectionName;
               namespace = PINECONE_NAMESPACE e;
               metric = js_or (PINECONE_METRIC e) (VECTOR_STORE_DISTANCE e)
           in
             if \<not> truthy_str apiKey
             then InMemoryConfig collectionName dimension maxVectors (Some ''pinecone'')
             else PineconeConfig indexName dimension apiKey indexName namespace metric)
        else InMemoryConfig collectionName dimension maxVectors None)"

subsection \<open>getWorkspaceVectorStoreConfigFromEnv\<close>

definition getWorkspaceVectorStoreConfigFromEnv :: "env \<Rightarrow> jsval \<Rightarrow> VectorStoreConfig" where
  "getWorkspaceVectorStoreConfigFromEnv e agentConfig =
     (let storeType = js_or (WORKSPACE_VECTOR_STORE_TYPE e) (VECTOR_STORE_TYPE e);
          collectionName = Some (js_or_lit (WORKSPACE_VECTOR_STORE_COLLECTION e) ''workspace_memory'');
          dimension0 =
            (case WORKSPACE_VECTOR_STORE_DIMENSION e of
               Some n \<Rightarrow>
                 if \<not> Number_isNaN (Some n) then n
                 else (case VECTOR_STORE_DIMENSION e of
                         Some m \<Rightarrow> if \<not> Number_isNaN (Some m) then m else Finite 1536
                       | None \<Rightarrow> Finite 1536)
             | None \<Rightarrow>
                 (case VECTOR_STORE_DIMENSION e of
                    Some m \<Rightarrow> if \<not> Number_isNaN (Some m) then m else Finite 1536
                  | None \<Rightarrow> Finite 1536));
          maxVectors =
            (case WORKSPACE_VECTOR_STORE_MAX_VECTORS e of
               Some n \<Rightarrow>
                 if \<not> Number_isNaN (Some n) then n
                 else (case VECTOR_STORE_MAX_VECTORS e of
                         Some m \<Rightarrow> if \<not> Number_isNaN (Some m) then m else Finite 10000
                       | None \<Rightarrow> Finite 10000)
             | None \<Rightarrow>
                 (case VECTOR_STORE_MAX_VECTORS e of
                    Some m \<Rightarrow> if \<not> Number_isNaN (Some m) then m else Finite 10000
                  | None \<Rightarrow> Finite 10000));
          embedding =
            (case agentConfig of
               JSUndefined \<Rightarrow> JSUndefined
             | JSNull \<Rightarrow> JSUndefined
             | _ \<Rightarrow> getProp agentConfig ''embedding'');
          dimension =
            (if truthy embedding \<and> typeof embedding = ''object''
                \<and> truthy (getProp embedding ''dimensions'')
             then
               (case getProp embedding ''dimensions'' of
                  JSNumber embeddingDimension \<Rightarrow>
                    if gt_zero embeddingDimension then embeddingDimension else dimension0
                | _ \<Rightarrow> dimension0)
             else dimension0)
      in
        if storeType = Some ''qdrant'' then
          (let host = js_or (WORKSPACE_VECTOR_STORE_HOST e) (VECTOR_STORE_HOST e);
               url = js_or (WORKSPACE_VECTOR_STORE_URL e) (VECTOR_STORE_URL e);
               port =
                 (if Number_isNaN (WORKSPACE_VECTOR_STORE_PORT e)
                  then (if Number_isNaN (VECTOR_STORE_PORT e) then None else VECTOR_STORE_PORT e)
                  else WORKSPACE_VECTOR_STORE_PORT e);
               apiKey = js_or (WORKSPACE_VECTOR_STORE_API_KEY e) (VECTOR_STORE_API_KEY e);
               distance = js_or (WORKSPACE_VECTOR_STORE_DISTANCE e) (VECTOR_STORE_DISTANCE e);
               onDisk = WORKSPACE_VECTOR_STORE_ON_DISK e
           in
             if \<not> truthy_str url \<and> \<not> truthy_str host
             then InMemoryConfig collectionName dimension maxVectors (Some ''qdrant-workspace'')
             else QdrantConfig collectionName dimension url host port apiKey distance onDisk)
        else if storeType = Some ''milvus'' then
          (let host = js_or (WORKSPACE_VECTOR_STORE_HOST e) (VECTOR_STORE_HOST e);
               url = js_or (WORKSPACE_VECTOR_STORE_URL e) (VECTOR_STORE_URL e);
               port =
                 (if Number_isNaN (WORKSPACE_VECTOR_STORE_PORT e)
                  then (if Number_isNaN (VECTOR_STORE_PORT e) then None else VECTOR_STORE_PORT e)
                  else WORKSPACE_VECTOR_STORE_PORT e);
               username = js_or (WORKSPACE_VECTOR_STORE_USERNAME e) (VECTOR_STORE_USERNAME e);
               password = js_or (WORKSPACE_VECTOR_STORE_PASSWORD e) (VECTOR_STORE_PASSWORD e);
               token = js_or (WORKSPACE_VECTOR_STORE_API_KEY e) (VECTOR_STORE_API_KEY e)
           in
             if \<not> truthy_str url \<and> \<not> truthy_str host
             then InMemoryConfig collectionName dimension maxVectors (Some ''milvus-workspace'')
             else MilvusConfig collectionName dimension url host port username password token)
        else if storeType = Some ''chroma'' then
          (let host = js_or (WORKSPACE_VECTOR_STORE_HOST e) (VECTOR_STORE_HOST e);
               url = js_or (WORKSPACE_VECTOR_STORE_URL e) (VECTOR_STORE_URL e);
               port =
                 (if Number_isNaN (WORKSPACE_VECTOR_STORE_PORT e)
                  then (if Number_isNaN (VECTOR_STORE_PORT e) then None else VECTOR_STORE_PORT e)
                  else WORKSPACE_VECTOR_STORE_PORT e);
               headers = None;
               envDistance = js_or (WORKSPACE_VECTOR_STORE_DISTANCE e) (VECTOR_STORE_DISTANCE e);
               distance =
                 (case envDistance of
                    Some (c # cs) \<Rightarrow>
                      (let d = toLowerCase (c # cs) in
                         if d = ''cosine'' then ''cosine''
                         else if d = ''euclidean'' \<or> d = ''l2'' then ''l2''
                         else if d = ''dot'' \<or> d = ''ip'' then ''ip''
                         else ''cosine'')
                  | _ \<Rightarrow> ''cosine'')
           in
             if \<not> truthy_str url \<and> \<not> truthy_str host
             then InMemoryConfig collectionName dimension maxVectors (Some ''chroma-workspace'')
             else ChromaConfig collectionName dimension url host port headers (Some distance))
        else if storeType = Some ''pinecone'' then
          (let apiKey = VECTOR_STORE_API_KEY e;
               indexName = collectionName;
               namespace = PINECONE_NAMESPACE e;
               metric = js_or (PINECONE_METRIC e) (VECTOR_STORE_DISTANCE e)
           in
             if \<not> truthy_str apiKey
             then InMemoryConfig collectionName dimension maxVectors (Some ''pinecone-workspace'')
             else PineconeConfig indexName dimension apiKey indexName
                    (Some (case namespace of
                             Some (c # cs) \<Rightarrow> (c # cs) @ ''-workspace''
                           | _ \<Rightarrow> ''workspace''))
                    metric)
        else InMemoryConfig collectionName dimension maxVectors None)"

subsection \<open>Trimming\<close>

text \<open>
  \<^verbatim>\<open>String.prototype.trim\<close> removes white space and line terminators from both ends.  On
  the UTF-8 bytes of a string these are the byte sequences below: tab, line feed, vertical
  tab, form feed, carriage return, space, U+00A0, U+1680, U+2000 to U+200A, U+2028, U+2029,
  U+202F, U+205F, U+3000 and U+FEFF.
\<close>

definition whitespace :: "string list" where
  "whitespace =
     [[CHR 0x09], [CHR 0x0A], [CHR 0x0B], [CHR 0x0C], [CHR 0x0D], [CHR 0x20],
      [CHR 0xC2, CHR 0xA0],
      [CHR 0xE1, CHR 0x9A, CHR 0x80],
      [CHR 0xE2, CHR 0x80, CHR 0x80], [CHR 0xE2, CHR 0x80, CHR 0x81],
      [CHR 0xE2, CHR 0x80, CHR 0x82], [CHR 0xE2, CHR 0x80, CHR 0x83],
      [CHR 0xE2, CHR 0x80, CHR 0x84], [CHR 0xE2, CHR 0x80, CHR 0x85],
      [CHR 0xE2, CHR 0x80, CHR 0x86], [CHR 0xE2, CHR 0x80, CHR 0x87],
      [CHR 0xE2, CHR 0x80, CHR 0x88], [CHR 0xE2, CHR 0x80, CHR 0x89],
      [CHR 0xE2, CHR 0x80, CHR 0x8A],
      [CHR 0xE2, CHR 0x80, CHR 0xA8], [CHR 0xE2, CHR 0x80, CHR 0xA9],
      [CHR 0xE2, CHR 0x80, CHR 0xAF],
      [CHR 0xE2, CHR 0x81, CHR 0x9F],
      [CHR 0xE3, CHR 0x80, CHR 0x80],
      [CHR 0xEF, CHR 0xBB, CHR 0xBF]]"

text \<open>Removing one of the sequences \<open>ws\<close> from the front of a string, when there is one.\<close>

definition strip_one :: "string list \<Rightarrow> string \<Rightarrow> string option" where
  "strip_one ws s =
     (case find (\<lambda>w. w \<noteq> [] \<and> take (length w) s = w) ws of
        None \<Rightarrow> None
      | Some w \<Rightarrow> Some (drop (length w) s))"

function strip_all :: "string list \<Rightarrow> string \<Rightarrow> string" where
  "strip_all ws s = (case strip_one ws s of None \<Rightarrow> s | Some r \<Rightarrow> strip_all ws r)"
  by pat_completeness auto
termination
proof (relation "measure (\<lambda>(ws, s). length s)")
  show "wf (measure (\<lambda>(ws, s). length s))" by simp
next
  fix ws :: "string list" and s r :: string
  assume "strip_one ws s = Some r"
  then obtain w where "find (\<lambda>w. w \<noteq> [] \<and> take (length w) s = w) ws = Some w"
    and r: "r = drop (length w) s"
    by (auto simp add: strip_one_def split: option.splits)
  then have "w \<noteq> []" and "take (length w) s = w"
    by (auto simp add: find_Some_iff)
  then have "length (take (length w) s) = length w" by simp
  then have le: "length w \<le> length s" by (simp add: min_def split: if_splits)
  from \<open>w \<noteq> []\<close> have pos: "0 < length w" by simp
  from le pos have "length s - length w < length s" by linarith
  with r show "((ws, r), (ws, s)) \<in> measure (\<lambda>(ws, s). length s)"
    by simp
qed

declare strip_all.simps [simp del]

definition trim :: "string \<Rightarrow> string" where
  "trim s = rev (strip_all (map rev whitespace) (rev (strip_all whitespace s)))"

subsection \<open>The collection managers\<close>

text \<open>
  \<^verbatim>\<open>DualCollectionVectorManager\<close> and \<^verbatim>\<open>MultiCollectionVectorManager\<close> are imported, so a
  manager is a parameter: its constructor (for the multi manager, the dynamic import and the
  constructor), and its methods as functions of the manager's state \<open>'m\<close>.  An awaited call
  either rejects with an error of type \<open>'e\<close> (\<open>Inl\<close>) or resolves (\<open>Inr\<close>);
  \<^verbatim>\<open>connect\<close> resolves with a value of which only the truthiness is read;
  \<^verbatim>\<open>getStore\<close> returns a store or \<^verbatim>\<open>null\<close>.
\<close>

record ('m, 's, 'e) manager_ops =
  construct :: "VectorStoreConfig \<Rightarrow> 'e + 'm"
  connect :: "'m \<Rightarrow> ('e + bool) \<times> 'm"
  getStore :: "'m \<Rightarrow> string \<Rightarrow> 's option"
  disconnect :: "'m \<Rightarrow> ('e + unit) \<times> 'm"

text \<open>The calls a factory makes on a manager, in order.\<close>

datatype call = Construct | Connect | GetStore string | Disconnect

text \<open>What a factory throws: an error of the manager, or an \<^verbatim>\<open>Error\<close> of its own.\<close>

datatype 'e thrown = Rejected 'e | Error string

text \<open>
  The factory results.  \<^verbatim>\<open>MultiCollectionVectorFactory\<close> has the three fields of
  \<^verbatim>\<open>DualCollectionVectorFactory\<close> and \<^verbatim>\<open>workspaceStore\<close>.
\<close>

record ('m, 's) DualCollectionVectorFactory =
  manager :: 'm
  knowledgeStore :: 's
  reflectionStore :: "'s option"

record ('m, 's) MultiCollectionVectorFactory = "('m, 's) DualCollectionVectorFactory" +
  workspaceStore :: "'s option"

subsection \<open>createDualCollectionVectorStoreInternal\<close>

text \<open>
  The function returns the calls it made on the manager and either what it throws or what
  it returns.  Logging is left out.
\<close>

definition createDualCollectionVectorStoreInternal ::
  "('m, 's, 'e) manager_ops \<Rightarrow> env \<Rightarrow> VectorStoreConfig \<Rightarrow>
     call list \<times> ('e thrown + ('m, 's) DualCollectionVectorFactory)" where
  "createDualCollectionVectorStoreInternal M e config =
     (let reflectionCollection = trim (js_or_lit (REFLECTION_VECTOR_STORE_COLLECTION e) '''') in
        if reflectionCollection = [] then
          (case construct M config of
             Inl err \<Rightarrow> ([Construct], Inl (Rejected err))
           | Inr m0 \<Rightarrow>
               (case connect M m0 of
                  (Inl err, m1) \<Rightarrow> ([Construct, Connect], Inl (Rejected err))
                | (Inr _, m1) \<Rightarrow>
                    (case getStore M m1 ''knowledge'' of
                       None \<Rightarrow>
                         ([Construct, Connect, GetStore ''knowledge''],
                          Inl (Error ''Failed to get knowledge store from dual collection manager''))
                     | Some ks \<Rightarrow>
                         ([Construct, Connect, GetStore ''knowledge''],
                          Inr \<lparr>manager = m1, knowledgeStore = ks, reflectionStore = None\<rparr>))))
        else
          (case construct M config of
             Inl err \<Rightarrow> ([Construct], Inl (Rejected err))
           | Inr m0 \<Rightarrow>
               (case connect M m0 of
                  (Inl err, m1) \<Rightarrow>
                    (case disconnect M m1 of
                       (Inl _, m2) \<Rightarrow> ([Construct, Connect, Disconnect], Inl (Rejected err))
                     | (Inr _, m2) \<Rightarrow> ([Construct, Connect, Disconnect], Inl (Rejected err)))
                | (Inr _, m1) \<Rightarrow>
                    (let ks = getStore M m1 ''knowledge'';
                         rs = getStore M m1 ''reflection''
                     in
                       case ks of
                         None \<Rightarrow>
                           (case disconnect M m1 of
                              (Inl _, m2) \<Rightarrow>
                                ([Construct, Connect, GetStore ''knowledge'',
                                  GetStore ''reflection'', Disconnect],
                                 Inl (Error
                                   ''Failed to get knowledge store from dual collection manager''))
                            | (Inr _, m2) \<Rightarrow>
                                ([Construct, Connect, GetStore ''knowledge'',
                                  GetStore ''reflection'', Disconnect],
                                 Inl (Error
                                   ''Failed to get knowledge store from dual collection manager'')))
                       | Some k \<Rightarrow>
                           ([Construct, Connect, GetStore ''knowledge'', GetStore ''reflection''],
                            Inr \<lparr>manager = m1, knowledgeStore = k, reflectionStore = rs\<rparr>)))))"

subsection \<open>createMultiCollectionVectorStoreInternal\<close>

definition createMultiCollectionVectorStoreInternal ::
  "('m, 's, 'e) manager_ops \<Rightarrow> VectorStoreConfig \<Rightarrow>
     call list \<times> ('e thrown + ('m, 's) MultiCollectionVectorFactory)" where
  "createMultiCollectionVectorStoreInternal M config =
     (case construct M config of
        Inl err \<Rightarrow> ([Construct], Inl (Rejected err))
      | Inr m0 \<Rightarrow>
          (case connect M m0 of
             (Inl err, m1) \<Rightarrow>
               (case disconnect M m1 of
                  (Inl _, m2) \<Rightarrow> ([Construct, Connect, Disconnect], Inl (Rejected err))
                | (Inr _, m2) \<Rightarrow> ([Construct, Connect, Disconnect], Inl (Rejected err)))
           | (Inr ok, m1) \<Rightarrow>
               if \<not> ok then
                 (case disconnect M m1 of
                    (Inl _, m2) \<Rightarrow>
                      ([Construct, Connect, Disconnect],
                       Inl (Error ''Failed to connect multi collection vector manager''))
                  | (Inr _, m2) \<Rightarrow>
                      ([Construct, Connect, Disconnect],
                       Inl (Error ''Failed to connect multi collection vector manager'')))
               else
                 (let ks = getStore M m1 ''knowledge'';
                      rs = getStore M m1 ''reflection'';
                      ws = getStore M m1 ''workspace''
                  in
                    case ks of
                      None \<Rightarrow>
                        (case disconnect M m1 of
                           (Inl _, m2) \<Rightarrow>
                             ([Construct, Connect, GetStore ''knowledge'', GetStore ''reflection'',
                               GetStore ''workspace'', Disconnect],
                              Inl (Error
                                ''Failed to get knowledge store from multi collection manager''))
                         | (Inr _, m2) \<Rightarrow>
                             ([Construct, Connect, GetStore ''knowledge'', GetStore ''reflection'',
                               GetStore ''workspace'', Disconnect],
                              Inl (Error
                                ''Failed to get knowledge store from multi collection manager'')))
                    | Some k \<Rightarrow>
                        ([Construct, Connect, GetStore ''knowledge'', GetStore ''reflection'',
                          GetStore ''workspace''],
                         Inr \<lparr>manager = m1, knowledgeStore = k, reflectionStore = rs,
                              workspaceStore = ws\<rparr>))))"

subsection \<open>The dual collection manager, from its description\<close>

text \<open>
  Modelled from the spec: \<^verbatim>\<open>DualCollectionVectorManager\<close> is imported from
  \<^verbatim>\<open>dual-collection-manager.js\<close>, which is not part of the source at hand.  The spec
  (CollectionSet in section 3, CollectionOrchestrator in section 4.4, StorageFactory in
  section 4.5, ordering in section 5) describes it: \<^verbatim>\<open>connect\<close> always constructs the
  knowledge collection from the base configuration; the reflection collection is enabled iff
  its collection name is configured and non-blank after trimming, and only then is it
  constructed, after knowledge; each construction calls the storage factory once; a
  construction failure tears down what the call has constructed and propagates; a disabled
  slot is \<^verbatim>\<open>null\<close>; \<^verbatim>\<open>getStore\<close> returns the handle of a slot or \<^verbatim>\<open>null\<close>;
  \<^verbatim>\<open>disconnect\<close> never throws.

  The storage factory is a parameter.  The spec leaves open how the configuration of a
  collection is derived from the base configuration, so the factory gets the slot and the base
  configuration.  The state of the manager holds the base configuration, the handles of its
  slots, the slots for which a construction was attempted, in order, and the slots torn down.
\<close>

record 's collection_manager_state =
  baseConfig :: VectorStoreConfig
  handles :: "(string \<times> 's) list"
  attempts :: "string list"
  tornDown :: "string list"

definition DualCollectionVectorManager ::
  "(string \<Rightarrow> VectorStoreConfig \<Rightarrow> 'e + 's) \<Rightarrow> env \<Rightarrow>
     ('s collection_manager_state, 's, 'e) manager_ops" where
  "DualCollectionVectorManager create e =
     \<lparr>construct =
        (\<lambda>config. Inr \<lparr>baseConfig = config, handles = [], attempts = [], tornDown = []\<rparr>),
      connect =
        (\<lambda>m. case create ''knowledge'' (baseConfig m) of
               Inl err \<Rightarrow> (Inl err, m\<lparr>attempts := attempts m @ [''knowledge'']\<rparr>)
             | Inr k \<Rightarrow>
                 if trim (js_or_lit (REFLECTION_VECTOR_STORE_COLLECTION e) '''') = [] then
                   (Inr True,
                    m\<lparr>handles := [(''knowledge'', k)],
                      attempts := attempts m @ [''knowledge'']\<rparr>)
                 else
                   (case create ''reflection'' (baseConfig m) of
                      Inl err \<Rightarrow>
                        (Inl err,
                         m\<lparr>attempts := attempts m @ [''knowledge'', ''reflection''],
                           tornDown := tornDown m @ [''knowledge'']\<rparr>)
                    | Inr r \<Rightarrow>
                        (Inr True,
                         m\<lparr>handles := [(''knowledge'', k), (''reflection'', r)],
                           attempts := attempts m @ [''knowledge'', ''reflection'']\<rparr>))),
      getStore = (\<lambda>m name. map_of (handles m) name),
      disconnect =
        (\<lambda>m. (Inr (), m\<lparr>handles := [], tornDown := tornDown m @ map fst (handles m)\<rparr>))\<rparr>"

subsection \<open>The service cache\<close>

text \<open>
  Modelled from the spec: \<^verbatim>\<open>getServiceCache().getOrCreate\<close> is imported from
  \<^verbatim>\<open>brain/memory/service-cache.js\<close>, which is not part of the source at hand.  The spec
  (ServiceCache, section 4.3) describes it: a call for a key that has no entry invokes the
  factory and leaves the construction in flight; a call that arrives while a construction for
  its key is in flight awaits that construction and does not invoke the factory; once a key
  has resolved, every later call returns the same handle without invoking the factory; when
  the factory fails the entry is cleared and all the waiters observe the same failure.

  Execution is single-threaded and cooperative, so a run is a sequence of two kinds of steps:
  a caller entering \<^verbatim>\<open>getOrCreate\<close>, and a construction in flight settling.  The cache
  records, besides its entries, the keys for which the factory was invoked, the callers that
  wait, and what each caller has observed.  A factory invocation is numbered, and the number
  identifies the instance it builds.
\<close>

datatype ('e, 'v) cache_entry = InFlight nat "'e + 'v" | Ready nat 'v

record ('k, 'e, 'v) ServiceCache =
  entries :: "'k \<Rightarrow> ('e, 'v) cache_entry option"
  invocations :: "'k list"
  waiting :: "(nat \<times> 'k) list"
  settled :: "nat \<Rightarrow> ('e + nat \<times> 'v) option"

definition empty_cache :: "('k, 'e, 'v) ServiceCache" where
  "empty_cache = \<lparr>entries = (\<lambda>k. None), invocations = [], waiting = [], settled = (\<lambda>c. None)\<rparr>"

definition getOrCreate ::
  "'k \<Rightarrow> (unit \<Rightarrow> 'e + 'v) \<Rightarrow> nat \<Rightarrow> ('k, 'e, 'v) ServiceCache \<Rightarrow> ('k, 'e, 'v) ServiceCache" where
  "getOrCreate key factory caller c =
     (case entries c key of
        Some (Ready i v) \<Rightarrow> c\<lparr>settled := (settled c)(caller \<mapsto> Inr (i, v))\<rparr>
      | Some (InFlight i out) \<Rightarrow> c\<lparr>waiting := waiting c @ [(caller, key)]\<rparr>
      | None \<Rightarrow>
          c\<lparr>entries := (entries c)(key \<mapsto> InFlight (length (invocations c)) (factory ())),
            invocations := invocations c @ [key],
            waiting := waiting c @ [(caller, key)]\<rparr>)"

definition settle :: "'k \<Rightarrow> ('k, 'e, 'v) ServiceCache \<Rightarrow> ('k, 'e, 'v) ServiceCache" where
  "settle key c =
     (case entries c key of
        Some (InFlight i (Inr v)) \<Rightarrow>
          c\<lparr>entries := (entries c)(key \<mapsto> Ready i v),
            settled := (\<lambda>caller. if (caller, key) \<in> set (waiting c)
                                 then Some (Inr (i, v)) else settled c caller),
            waiting := filter (\<lambda>(caller, k). k \<noteq> key) (waiting c)\<rparr>
      | Some (InFlight i (Inl err)) \<Rightarrow>
          c\<lparr>entries := (entries c)(key := None),
            settled := (\<lambda>caller. if (caller, key) \<in> set (waiting c)
                                 then Some (Inl err) else settled c caller),
            waiting := filter (\<lambda>(caller, k). k \<noteq> key) (waiting c)\<rparr>
      | _ \<Rightarrow> c)"

subsection \<open>createDualCollectionVectorStoreFromEnv and createMultiCollectionVectorStoreFromEnv\<close>

text \<open>
  \<^verbatim>\<open>createServiceKey\<close> is imported as well and is a parameter: it gets the service name and
  the fields of the object literal, in order.  The two functions compute the key and enter
  \<^verbatim>\<open>getOrCreate\<close> without awaiting anything before, so each is one step of a caller on the
  cache.
\<close>

definition dualCollectionCacheKey ::
  "(string \<Rightarrow> (string \<times> jsval) list \<Rightarrow> 'k) \<Rightarrow> env \<Rightarrow> VectorStoreConfig \<Rightarrow> 'k" where
  "dualCollectionCacheKey createServiceKey e config =
     createServiceKey ''dualCollectionVectorStore''
       [(''type'', JSString (config_type config)),
        (''collection'',
           (case collectionName config of None \<Rightarrow> JSUndefined | Some s \<Rightarrow> JSString s)),
        (''reflectionCollection'',
           JSString (js_or_lit (REFLECTION_VECTOR_STORE_COLLECTION e) '''')),
        (''dimension'', JSNumber (dimension config))]"

definition createDualCollectionVectorStoreFromEnv ::
  "(string \<Rightarrow> (string \<times> jsval) list \<Rightarrow> 'k) \<Rightarrow> ('m, 's, 'e) manager_ops \<Rightarrow> env \<Rightarrow> jsval \<Rightarrow> nat \<Rightarrow>
     ('k, 'e thrown, ('m, 's) DualCollectionVectorFactory) ServiceCache \<Rightarrow>
     ('k, 'e thrown, ('m, 's) DualCollectionVectorFactory) ServiceCache" where
  "createDualCollectionVectorStoreFromEnv createServiceKey M e agentConfig caller cache =
     (let config = getVectorStoreConfigFromEnv e agentConfig;
          cacheKey = dualCollectionCacheKey createServiceKey e config
      in getOrCreate cacheKey
           (\<lambda>u. snd (createDualCollectionVectorStoreInternal M e config)) caller cache)"

definition multiCollectionCacheKey ::
  "(string \<Rightarrow> (string \<times> jsval) list \<Rightarrow> 'k) \<Rightarrow> env \<Rightarrow> VectorStoreConfig \<Rightarrow> 'k" where
  "multiCollectionCacheKey createServiceKey e config =
     createServiceKey ''multiCollectionVectorStore''
       [(''type'', JSString (config_type config)),
        (''collection'',
           (case collectionName config of None \<Rightarrow> JSUndefined | Some s \<Rightarrow> JSString s)),
        (''reflectionCollection'',
           JSString (js_or_lit (REFLECTION_VECTOR_STORE_COLLECTION e) '''')),
        (''workspaceCollection'',
           JSString (js_or_lit (WORKSPACE_VECTOR_STORE_COLLECTION e) ''workspace_memory'')),
        (''workspaceEnabled'', JSBoolean (USE_WORKSPACE_MEMORY e = Some True)),
        (''dimension'', JSNumber (dimension config))]"

definition createMultiCollectionVectorStoreFromEnv ::
  "(string \<Rightarrow> (string \<times> jsval) list \<Rightarrow> 'k) \<Rightarrow> ('m, 's, 'e) manager_ops \<Rightarrow> env \<Rightarrow> jsval \<Rightarrow> nat \<Rightarrow>
     ('k, 'e thrown, ('m, 's) MultiCollectionVectorFactory) ServiceCache \<Rightarrow>
     ('k, 'e thrown, ('m, 's) MultiCollectionVectorFactory) ServiceCache" where
  "createMultiCollectionVectorStoreFromEnv createServiceKey M e agentConfig caller cache =
     (let config = getVectorStoreConfigFromEnv e agentConfig;
          cacheKey = multiCollectionCacheKey createServiceKey e config
      in getOrCreate cacheKey
           (\<lambda>u. snd (createMultiCollectionVectorStoreInternal M config)) caller cache)"

subsection \<open>Helpers for stating the properties\<close>

text \<open>The environment in which no variable is set.\<close>

definition empty_env :: env where
  "empty_env = \<lparr>
     VECTOR_STORE_TYPE = None, VECTOR_STORE_COLLECTION = None,
     VECTOR_STORE_DIMENSION = None, VECTOR_STORE_MAX_VECTORS = None,
     VECTOR_STORE_HOST = None, VECTOR_STORE_URL = None, VECTOR_STORE_PORT = None,
     VECTOR_STORE_API_KEY = None, VECTOR_STORE_DISTANCE = None, VECTOR_STORE_ON_DISK = None,
     VECTOR_STORE_USERNAME = None, VECTOR_STORE_PASSWORD = None,
     PINECONE_NAMESPACE = None, PINECONE_METRIC = None,
     REFLECTION_VECTOR_STORE_COLLECTION = None, USE_WORKSPACE_MEMORY = None,
     WORKSPACE_VECTOR_STORE_TYPE = None, WORKSPACE_VECTOR_STORE_COLLECTION = None,
     WORKSPACE_VECTOR_STORE_DIMENSION = None, WORKSPACE_VECTOR_STORE_MAX_VECTORS = None,
     WORKSPACE_VECTOR_STORE_HOST = None, WORKSPACE_VECTOR_STORE_URL = None,
     WORKSPACE_VECTOR_STORE_PORT = None, WORKSPACE_VECTOR_STORE_API_KEY = None,
     WORKSPACE_VECTOR_STORE_DISTANCE = None, WORKSPACE_VECTOR_STORE_ON_DISK = None,
     WORKSPACE_VECTOR_STORE_USERNAME = None, WORKSPACE_VECTOR_STORE_PASSWORD = None\<rparr>"

text \<open>
  The reading of a numeric variable used in the statements below: the variable when it is
  defined and not NaN, the given default otherwise.
\<close>

definition valid_or :: "jsnumber option \<Rightarrow> jsnumber \<Rightarrow> jsnumber" where
  "valid_or x d = (case x of None \<Rightarrow> d | Some n \<Rightarrow> if n = NaN then d else n)"

text \<open>
  A manager whose \<^verbatim>\<open>connect\<close> rejects with a connection error, and one that connects
  and holds a knowledge store only; both for the examples below.
\<close>

definition refusing_manager :: "(nat, string, string) manager_ops" where
  "refusing_manager =
     \<lparr>construct = (\<lambda>config. Inr 0),
      connect = (\<lambda>m. (Inl ''ECONNREFUSED'', m)),
      getStore = (\<lambda>m name. None),
      disconnect = (\<lambda>m. (Inr (), m))\<rparr>"

definition knowledge_manager :: "(nat, string, string) manager_ops" where
  "knowledge_manager =
     \<lparr>construct = (\<lambda>config. Inr 0),
      connect = (\<lambda>m. (Inr True, Suc m)),
      getStore = (\<lambda>m name. if name = ''knowledge'' then Some ''knowledge store'' else None),
      disconnect = (\<lambda>m. (Inr (), 0))\<rparr>"

text \<open>A storage factory that always succeeds, for the examples below.\<close>

definition sample_storage :: "string \<Rightarrow> VectorStoreConfig \<Rightarrow> string + string" where
  "sample_storage slot config = Inr (slot @ '' store'')"

text \<open>Three callers with the same environment and no agent configuration.\<close>

definition concurrent_calls :: "(nat \<times> env \<times> jsval) list" where
  "concurrent_calls =
     [(0, empty_env, JSUndefined), (1, empty_env, JSUndefined), (2, empty_env, JSUndefined)]"

section \<open>Properties of the configuration resolvers\<close>

subsection \<open>Auxiliary facts\<close>

lemma optional_chain:
  "(case a of JSUndefined \<Rightarrow> JSUndefined | JSNull \<Rightarrow> JSUndefined | _ \<Rightarrow> getProp a k) = getProp a k"
  by (cases a) (simp_all add: getProp_def)

lemma getProp_primitive:
  "getProp JSUndefined k = JSUndefined" "getProp JSNull k = JSUndefined"
  "getProp (JSBoolean b) k = JSUndefined" "getProp (JSNumber n) k = JSUndefined"
  "getProp (JSString s) k = JSUndefined"
  by (simp_all add: getProp_def)

lemma not_truthy_number: "\<not> truthy (JSNumber n) \<Longrightarrow> \<not> gt_zero n"
  by (cases n) (simp_all add: truthy_def gt_zero_def)

text \<open>
  The guard in front of the override is implied by the test inside it: a value whose
  \<^verbatim>\<open>dimensions\<close> is a positive number is an object, and a positive number is truthy.
\<close>

lemma override_guard:
  "(if truthy emb \<and> typeof emb = ''object'' \<and> truthy (getProp emb ''dimensions'')
    then (case getProp emb ''dimensions'' of
            JSNumber n \<Rightarrow> if gt_zero n then n else d0
          | _ \<Rightarrow> d0)
    else d0) =
   (case getProp emb ''dimensions'' of
      JSNumber n \<Rightarrow> if gt_zero n then n else d0
    | _ \<Rightarrow> d0)"
proof (cases emb)
  case (JSObject ps)
  show ?thesis
  proof (cases "truthy (getProp emb ''dimensions'')")
    case True
    with JSObject show ?thesis by (simp add: truthy_def typeof_def)
  next
    case False
    then show ?thesis
      by (cases "getProp emb ''dimensions''") (auto dest: not_truthy_number)
  qed
qed (simp_all add: getProp_primitive)

lemmas resolver_simps = optional_chain override_guard Number_isNaN_def Let_def

lemma default_dimension:
  "dimension (getVectorStoreConfigFromEnv e a) =
     (case getProp (getProp a ''embedding'') ''dimensions'' of
        JSNumber n \<Rightarrow>
          if gt_zero n then n else valid_or (VECTOR_STORE_DIMENSION e) (Finite 1536)
      | _ \<Rightarrow> valid_or (VECTOR_STORE_DIMENSION e) (Finite 1536))"
  by (simp add: getVectorStoreConfigFromEnv_def resolver_simps valid_or_def
      split: option.splits jsval.splits)

lemma workspace_dimension:
  "dimension (getWorkspaceVectorStoreConfigFromEnv e a) =
     (case getProp (getProp a ''embedding'') ''dimensions'' of
        JSNumber n \<Rightarrow>
          if gt_zero n then n
          else valid_or (WORKSPACE_VECTOR_STORE_DIMENSION e)
                 (valid_or (VECTOR_STORE_DIMENSION e) (Finite 1536))
      | _ \<Rightarrow> valid_or (WORKSPACE_VECTOR_STORE_DIMENSION e)
               (valid_or (VECTOR_STORE_DIMENSION e) (Finite 1536)))"
  by (simp add: getWorkspaceVectorStoreConfigFromEnv_def resolver_simps valid_or_def
      split: option.splits jsval.splits)

subsection \<open>Dimension override\<close>

text \<open>
  Claim C4.  When \<^verbatim>\<open>agentConfig.embedding.dimensions\<close> is a positive number, both
  resolvers return a configuration whose dimension is that number, whatever
  \<^verbatim>\<open>VECTOR_STORE_DIMENSION\<close> and \<^verbatim>\<open>WORKSPACE_VECTOR_STORE_DIMENSION\<close> hold.  When it is
  not a number, or a number that is not positive, the dimension is the one derived from the
  environment: the first of the (workspace, then default) dimension variables that is defined
  and not NaN, and 1536 when there is none.
\<close>

theorem dimension_override:
  "(getProp (getProp agentConfig ''embedding'') ''dimensions'' = JSNumber n \<and> gt_zero n \<longrightarrow>
      dimension (getVectorStoreConfigFromEnv e agentConfig) = n \<and>
      dimension (getWorkspaceVectorStoreConfigFromEnv e agentConfig) = n)
   \<and> ((\<forall>m. getProp (getProp agentConfig ''embedding'') ''dimensions'' = JSNumber m
            \<longrightarrow> \<not> gt_zero m) \<longrightarrow>
      dimension (getVectorStoreConfigFromEnv e agentConfig) =
        valid_or (VECTOR_STORE_DIMENSION e) (Finite 1536) \<and>
      dimension (getWorkspaceVectorStoreConfigFromEnv e agentConfig) =
        valid_or (WORKSPACE_VECTOR_STORE_DIMENSION e)
          (valid_or (VECTOR_STORE_DIMENSION e) (Finite 1536)))"
  by (simp add: default_dimension workspace_dimension split: jsval.splits)

theorem dimension_override_witness:
  "dimension (getVectorStoreConfigFromEnv
      (empty_env\<lparr>VECTOR_STORE_DIMENSION := Some (Finite 512),
                 WORKSPACE_VECTOR_STORE_DIMENSION := Some (Finite 256)\<rparr>)
      (JSObject [(''embedding'', JSObject [(''dimensions'', JSNumber (Finite 768))])]))
     = Finite 768
   \<and> dimension (getWorkspaceVectorStoreConfigFromEnv
      (empty_env\<lparr>VECTOR_STORE_DIMENSION := Some (Finite 512),
                 WORKSPACE_VECTOR_STORE_DIMENSION := Some (Finite 256)\<rparr>)
      (JSObject [(''embedding'', JSObject [(''dimensions'', JSNumber (Finite 768))])]))
     = Finite 768
   \<and> dimension (getVectorStoreConfigFromEnv
      (empty_env\<lparr>VECTOR_STORE_DIMENSION := Some (Finite 512),
                 WORKSPACE_VECTOR_STORE_DIMENSION := Some (Finite 256)\<rparr>)
      (JSObject [(''embedding'', JSObject [(''dimensions'', JSNumber (Finite (- 3)))])]))
     = Finite 512
   \<and> dimension (getWorkspaceVectorStoreConfigFromEnv
      (empty_env\<lparr>VECTOR_STORE_DIMENSION := Some (Finite 512),
                 WORKSPACE_VECTOR_STORE_DIMENSION := Some (Finite 256)\<rparr>)
      (JSObject [(''embedding'', JSObject [(''dimensions'', JSString ''768'')])]))
     = Finite 256"
  using
    dimension_override
      [of "JSObject [(''embedding'', JSObject [(''dimensions'', JSNumber (Finite 768))])]"
          "Finite 768"
          "empty_env\<lparr>VECTOR_STORE_DIMENSION := Some (Finite 512),
                     WORKSPACE_VECTOR_STORE_DIMENSION := Some (Finite 256)\<rparr>"]
    dimension_override
      [of "JSObject [(''embedding'', JSObject [(''dimensions'', JSNumber (Finite (- 3)))])]"
          "Finite 1"
          "empty_env\<lparr>VECTOR_STORE_DIMENSION := Some (Finite 512),
                     WORKSPACE_VECTOR_STORE_DIMENSION := Some (Finite 256)\<rparr>"]
    dimension_override
      [of "JSObject [(''embedding'', JSObject [(''dimensions'', JSString ''768'')])]"
          "Finite 1"
          "empty_env\<lparr>VECTOR_STORE_DIMENSION := Some (Finite 512),
                     WORKSPACE_VECTOR_STORE_DIMENSION := Some (Finite 256)\<rparr>"]
  by (simp add: getProp_def gt_zero_def valid_or_def empty_env_def)

subsection \<open>The qdrant fallback, in full\<close>

text \<open>
  Claim C8.  With \<^verbatim>\<open>VECTOR_STORE_TYPE=qdrant\<close>, neither \<^verbatim>\<open>VECTOR_STORE_HOST\<close> nor
  \<^verbatim>\<open>VECTOR_STORE_URL\<close> set, and no dimension (from the environment or from
  \<^verbatim>\<open>agentConfig\<close>) and no \<^verbatim>\<open>VECTOR_STORE_MAX_VECTORS\<close> given,
  \<^verbatim>\<open>getVectorStoreConfigFromEnv\<close> returns exactly the in-memory object with the configured
  collection name, dimension 1536, maxVectors 10000 and \<^verbatim>\<open>_fallbackFrom: 'qdrant'\<close>.
\<close>

theorem qdrant_fallback_exact:
  assumes "VECTOR_STORE_TYPE e = Some ''qdrant''"
    and "\<not> truthy_str (VECTOR_STORE_HOST e)" and "\<not> truthy_str (VECTOR_STORE_URL e)"
    and "VECTOR_STORE_DIMENSION e = None" and "VECTOR_STORE_MAX_VECTORS e = None"
    and "getProp (getProp agentConfig ''embedding'') ''dimensions'' = JSUndefined"
  shows "getVectorStoreConfigFromEnv e agentConfig =
           InMemoryConfig (VECTOR_STORE_COLLECTION e) (Finite 1536) (Finite 10000)
             (Some ''qdrant'')"
  using assms
  by (simp add: getVectorStoreConfigFromEnv_def resolver_simps)

theorem qdrant_fallback_exact_witness:
  "getVectorStoreConfigFromEnv
     (empty_env\<lparr>VECTOR_STORE_TYPE := Some ''qdrant'', VECTOR_STORE_COLLECTION := Some ''docs''\<rparr>)
     JSUndefined =
   InMemoryConfig (Some ''docs'') (Finite 1536) (Finite 10000) (Some ''qdrant'')"
  using qdrant_fallback_exact
    [of "empty_env\<lparr>VECTOR_STORE_TYPE := Some ''qdrant'',
                    VECTOR_STORE_COLLECTION := Some ''docs''\<rparr>" JSUndefined]
  by (simp add: empty_env_def truthy_str_def getProp_primitive)

subsection \<open>Pinecone index name\<close>

text \<open>
  Claim C9.  Whenever \<^verbatim>\<open>getVectorStoreConfigFromEnv\<close> returns a pinecone configuration,
  its \<^verbatim>\<open>indexName\<close> equals its \<^verbatim>\<open>collectionName\<close>, and both are the value of
  \<^verbatim>\<open>VECTOR_STORE_COLLECTION\<close>.
\<close>

theorem pinecone_indexName:
  assumes "config_type (getVectorStoreConfigFromEnv e agentConfig) = ''pinecone''"
  shows "indexName (getVectorStoreConfigFromEnv e agentConfig) =
           collectionName (getVectorStoreConfigFromEnv e agentConfig)
         \<and> collectionName (getVectorStoreConfigFromEnv e agentConfig) = VECTOR_STORE_COLLECTION e"
  using assms
  by (auto simp add: getVectorStoreConfigFromEnv_def Let_def split: if_splits)

theorem pinecone_indexName_witness:
  "config_type (getVectorStoreConfigFromEnv
     (empty_env\<lparr>VECTOR_STORE_TYPE := Some ''pinecone'', VECTOR_STORE_COLLECTION := Some ''docs'',
                VECTOR_STORE_API_KEY := Some ''key''\<rparr>) JSUndefined) = ''pinecone''
   \<and> indexName (getVectorStoreConfigFromEnv
     (empty_env\<lparr>VECTOR_STORE_TYPE := Some ''pinecone'', VECTOR_STORE_COLLECTION := Some ''docs'',
                VECTOR_STORE_API_KEY := Some ''key''\<rparr>) JSUndefined) = Some ''docs''
   \<and> collectionName (getVectorStoreConfigFromEnv
     (empty_env\<lparr>VECTOR_STORE_TYPE := Some ''pinecone'', VECTOR_STORE_COLLECTION := Some ''docs'',
                VECTOR_STORE_API_KEY := Some ''key''\<rparr>) JSUndefined) = Some ''docs''"
proof -
  have t: "config_type (getVectorStoreConfigFromEnv
     (empty_env\<lparr>VECTOR_STORE_TYPE := Some ''pinecone'', VECTOR_STORE_COLLECTION := Some ''docs'',
                VECTOR_STORE_API_KEY := Some ''key''\<rparr>) JSUndefined) = ''pinecone''"
    by (simp add: getVectorStoreConfigFromEnv_def resolver_simps empty_env_def truthy_str_def)
  from pinecone_indexName [OF t] t show ?thesis
    by (simp add: empty_env_def)
qed

subsection \<open>Fallback to the in-memory backend\<close>

lemma default_fallback:
  "VECTOR_STORE_TYPE e = Some t \<Longrightarrow>
   t = ''qdrant'' \<or> t = ''milvus'' \<or> t = ''chroma'' \<Longrightarrow>
   \<not> truthy_str (VECTOR_STORE_URL e) \<Longrightarrow> \<not> truthy_str (VECTOR_STORE_HOST e) \<Longrightarrow>
   config_type (getVectorStoreConfigFromEnv e a) = ''in-memory'' \<and>
   fallbackFrom (getVectorStoreConfigFromEnv e a) = Some t"
  by (auto simp add: getVectorStoreConfigFromEnv_def Let_def)

lemma default_fallback_pinecone:
  "VECTOR_STORE_TYPE e = Some ''pinecone'' \<Longrightarrow>
   \<not> truthy_str (VECTOR_STORE_API_KEY e) \<Longrightarrow>
   config_type (getVectorStoreConfigFromEnv e a) = ''in-memory'' \<and>
   fallbackFrom (getVectorStoreConfigFromEnv e a) = Some ''pinecone''"
  by (auto simp add: getVectorStoreConfigFromEnv_def Let_def)

lemma workspace_fallback:
  "js_or (WORKSPACE_VECTOR_STORE_TYPE e) (VECTOR_STORE_TYPE e) = Some t \<Longrightarrow>
   t = ''qdrant'' \<or> t = ''milvus'' \<or> t = ''chroma'' \<Longrightarrow>
   \<not> truthy_str (js_or (WORKSPACE_VECTOR_STORE_URL e) (VECTOR_STORE_URL e)) \<Longrightarrow>
   \<not> truthy_str (js_or (WORKSPACE_VECTOR_STORE_HOST e) (VECTOR_STORE_HOST e)) \<Longrightarrow>
   config_type (getWorkspaceVectorStoreConfigFromEnv e a) = ''in-memory'' \<and>
   fallbackFrom (getWorkspaceVectorStoreConfigFromEnv e a) = Some (t @ ''-workspace'')"
  by (auto simp add: getWorkspaceVectorStoreConfigFromEnv_def Let_def)

lemma workspace_fallback_pinecone:
  "js_or (WORKSPACE_VECTOR_STORE_TYPE e) (VECTOR_STORE_TYPE e) = Some ''pinecone'' \<Longrightarrow>
   \<not> truthy_str (VECTOR_STORE_API_KEY e) \<Longrightarrow>
   config_type (getWorkspaceVectorStoreConfigFromEnv e a) = ''in-memory'' \<and>
   fallbackFrom (getWorkspaceVectorStoreConfigFromEnv e a) = Some ''pinecone-workspace''"
  by (auto simp add: getWorkspaceVectorStoreConfigFromEnv_def Let_def)

text \<open>
  Claim C1, as the code has it.  Let the requested backend type be one of qdrant, milvus,
  chroma and pinecone, without the connection data it needs: for qdrant, milvus and chroma
  neither url nor host is set (non-empty), for pinecone no api key is set.  Then
  \<^verbatim>\<open>getVectorStoreConfigFromEnv\<close> returns an in-memory configuration whose
  \<^verbatim>\<open>_fallbackFrom\<close> is the requested type, and \<^verbatim>\<open>getWorkspaceVectorStoreConfigFromEnv\<close>
  returns an in-memory configuration whose \<^verbatim>\<open>_fallbackFrom\<close> is the requested type
  followed by \<^verbatim>\<open>-workspace\<close>.  For the workspace resolver the requested type, url and host
  are the workspace variable when non-empty and the default variable otherwise.
\<close>

theorem fallback_tag:
  assumes "t = ''qdrant'' \<or> t = ''milvus'' \<or> t = ''chroma'' \<or> t = ''pinecone''"
  shows
    "(VECTOR_STORE_TYPE e = Some t \<and>
      (if t = ''pinecone'' then \<not> truthy_str (VECTOR_STORE_API_KEY e)
       else \<not> truthy_str (VECTOR_STORE_URL e) \<and> \<not> truthy_str (VECTOR_STORE_HOST e)) \<longrightarrow>
      config_type (getVectorStoreConfigFromEnv e a) = ''in-memory'' \<and>
      fallbackFrom (getVectorStoreConfigFromEnv e a) = Some t)
     \<and>
     (js_or (WORKSPACE_VECTOR_STORE_TYPE e) (VECTOR_STORE_TYPE e) = Some t \<and>
      (if t = ''pinecone''
       then \<not> truthy_str (WORKSPACE_VECTOR_STORE_API_KEY e) \<and> \<not> truthy_str (VECTOR_STORE_API_KEY e)
       else \<not> truthy_str (js_or (WORKSPACE_VECTOR_STORE_URL e) (VECTOR_STORE_URL e)) \<and>
            \<not> truthy_str (js_or (WORKSPACE_VECTOR_STORE_HOST e) (VECTOR_STORE_HOST e))) \<longrightarrow>
      config_type (getWorkspaceVectorStoreConfigFromEnv e a) = ''in-memory'' \<and>
      fallbackFrom (getWorkspaceVectorStoreConfigFromEnv e a) = Some (t @ ''-workspace''))"
proof (cases "t = ''pinecone''")
  case True
  then show ?thesis
    using default_fallback_pinecone [of e a] workspace_fallback_pinecone [of e a] by simp
next
  case False
  with assms have "t = ''qdrant'' \<or> t = ''milvus'' \<or> t = ''chroma''" by simp
  with False show ?thesis
    using default_fallback [of e t a] workspace_fallback [of e t a] by simp
qed


theorem fallback_tag_witness:
  "config_type (getVectorStoreConfigFromEnv (empty_env\<lparr>VECTOR_STORE_TYPE := Some ''milvus''\<rparr>) JSUndefined) = ''in-memory''
   \<and> fallbackFrom (getVectorStoreConfigFromEnv (empty_env\<lparr>VECTOR_STORE_TYPE := Some ''milvus''\<rparr>) JSUndefined) = Some ''milvus''
   \<and> config_type (getWorkspaceVectorStoreConfigFromEnv (empty_env\<lparr>VECTOR_STORE_TYPE := Some ''milvus''\<rparr>) JSUndefined) = ''in-memory''
   \<and> fallbackFrom (getWorkspaceVectorStoreConfigFromEnv (empty_env\<lparr>VECTOR_STORE_TYPE := Some ''milvus''\<rparr>) JSUndefined) = Some ''milvus-workspace''"
  using fallback_tag [of "''milvus''" "empty_env\<lparr>VECTOR_STORE_TYPE := Some ''milvus''\<rparr>" JSUndefined]
  by (simp add: empty_env_def truthy_str_def js_or_def)

text \<open>
  The claim as stated asks the workspace resolver for a tag equal to the requested type.
  With only \<^verbatim>\<open>VECTOR_STORE_TYPE=qdrant\<close> set, the requested type is \<^verbatim>\<open>qdrant\<close>, neither
  url nor host is set, and the tag is \<^verbatim>\<open>qdrant-workspace\<close>.
\<close>

theorem workspace_fallback_tag_counterexample:
  "js_or (WORKSPACE_VECTOR_STORE_TYPE (empty_env\<lparr>VECTOR_STORE_TYPE := Some ''qdrant''\<rparr>))
         (VECTOR_STORE_TYPE (empty_env\<lparr>VECTOR_STORE_TYPE := Some ''qdrant''\<rparr>)) = Some ''qdrant''
   \<and> \<not> truthy_str (js_or (WORKSPACE_VECTOR_STORE_URL (empty_env\<lparr>VECTOR_STORE_TYPE := Some ''qdrant''\<rparr>))
                        (VECTOR_STORE_URL (empty_env\<lparr>VECTOR_STORE_TYPE := Some ''qdrant''\<rparr>)))
   \<and> \<not> truthy_str (js_or (WORKSPACE_VECTOR_STORE_HOST (empty_env\<lparr>VECTOR_STORE_TYPE := Some ''qdrant''\<rparr>))
                        (VECTOR_STORE_HOST (empty_env\<lparr>VECTOR_STORE_TYPE := Some ''qdrant''\<rparr>)))
   \<and> getWorkspaceVectorStoreConfigFromEnv (empty_env\<lparr>VECTOR_STORE_TYPE := Some ''qdrant''\<rparr>) JSUndefined =
       InMemoryConfig (Some ''workspace_memory'') (Finite 1536) (Finite 10000) (Some ''qdrant-workspace'')
   \<and> fallbackFrom (getWorkspaceVectorStoreConfigFromEnv (empty_env\<lparr>VECTOR_STORE_TYPE := Some ''qdrant''\<rparr>) JSUndefined)
       \<noteq> Some ''qdrant''"
  by (simp add: getWorkspaceVectorStoreConfigFromEnv_def resolver_simps empty_env_def truthy_str_def js_or_def
      js_or_lit_def getProp_primitive)

subsection \<open>Distance metrics\<close>

lemma toLowerCase_Nil [simp]: "toLowerCase [] = []"
  by (simp add: toLowerCase_def)

lemma chroma_normalize:
  "(case v of
      Some (c # cs) \<Rightarrow>
        (let d = toLowerCase (c # cs) in
           if d = ''cosine'' then ''cosine''
           else if d = ''euclidean'' \<or> d = ''l2'' then ''l2''
           else if d = ''dot'' \<or> d = ''ip'' then ''ip''
           else ''cosine'')
    | _ \<Rightarrow> ''cosine'') =
   (if map_option toLowerCase v \<in> {Some ''euclidean'', Some ''l2''} then ''l2''
    else if map_option toLowerCase v \<in> {Some ''dot'', Some ''ip''} then ''ip''
    else ''cosine'')"
proof (cases v)
  case None
  then show ?thesis by simp
next
  case (Some s)
  show ?thesis
  proof (cases s)
    case Nil
    with Some show ?thesis by simp
  next
    case (Cons c cs)
    define d where "d = toLowerCase (c # cs)"
    have "(if d = ''cosine'' then ''cosine''
           else if d = ''euclidean'' \<or> d = ''l2'' then ''l2''
           else if d = ''dot'' \<or> d = ''ip'' then ''ip''
           else ''cosine'') =
          (if Some d \<in> {Some ''euclidean'', Some ''l2''} then ''l2''
           else if Some d \<in> {Some ''dot'', Some ''ip''} then ''ip''
           else ''cosine'')"
      by auto
    with Some Cons show ?thesis by (simp add: d_def Let_def)
  qed
qed


lemma default_branch:
  "config_type (getVectorStoreConfigFromEnv e a) = ''qdrant'' \<Longrightarrow>
     VECTOR_STORE_TYPE e = Some ''qdrant''"
  "config_type (getVectorStoreConfigFromEnv e a) = ''milvus'' \<Longrightarrow>
     VECTOR_STORE_TYPE e = Some ''milvus''"
  "config_type (getVectorStoreConfigFromEnv e a) = ''chroma'' \<Longrightarrow>
     VECTOR_STORE_TYPE e = Some ''chroma''"
  "config_type (getVectorStoreConfigFromEnv e a) = ''pinecone'' \<Longrightarrow>
     VECTOR_STORE_TYPE e = Some ''pinecone''"
  by (simp_all add: getVectorStoreConfigFromEnv_def Let_def split: if_splits)

lemma workspace_branch:
  "config_type (getWorkspaceVectorStoreConfigFromEnv e a) = ''qdrant'' \<Longrightarrow>
     js_or (WORKSPACE_VECTOR_STORE_TYPE e) (VECTOR_STORE_TYPE e) = Some ''qdrant''"
  "config_type (getWorkspaceVectorStoreConfigFromEnv e a) = ''milvus'' \<Longrightarrow>
     js_or (WORKSPACE_VECTOR_STORE_TYPE e) (VECTOR_STORE_TYPE e) = Some ''milvus''"
  "config_type (getWorkspaceVectorStoreConfigFromEnv e a) = ''chroma'' \<Longrightarrow>
     js_or (WORKSPACE_VECTOR_STORE_TYPE e) (VECTOR_STORE_TYPE e) = Some ''chroma''"
  "config_type (getWorkspaceVectorStoreConfigFromEnv e a) = ''pinecone'' \<Longrightarrow>
     js_or (WORKSPACE_VECTOR_STORE_TYPE e) (VECTOR_STORE_TYPE e) = Some ''pinecone''"
  by (simp_all add: getWorkspaceVectorStoreConfigFromEnv_def Let_def split: if_splits)

lemma default_chroma_distance:
  assumes "config_type (getVectorStoreConfigFromEnv e a) = ''chroma''"
  shows "distance (getVectorStoreConfigFromEnv e a) =
     Some (if map_option toLowerCase (VECTOR_STORE_DISTANCE e) \<in> {Some ''euclidean'', Some ''l2''}
           then ''l2''
           else if map_option toLowerCase (VECTOR_STORE_DISTANCE e) \<in> {Some ''dot'', Some ''ip''}
           then ''ip'' else ''cosine'')"
proof -
  have t: "VECTOR_STORE_TYPE e = Some ''chroma''"
    using assms by (rule default_branch)
  have r: "truthy_str (VECTOR_STORE_URL e) \<or> truthy_str (VECTOR_STORE_HOST e)"
    using assms t by (auto simp add: getVectorStoreConfigFromEnv_def Let_def split: if_splits)
  have "distance (getVectorStoreConfigFromEnv e a) =
     Some (case VECTOR_STORE_DISTANCE e of
      Some (c # cs) \<Rightarrow>
        (let d = toLowerCase (c # cs) in
           if d = ''cosine'' then ''cosine''
           else if d = ''euclidean'' \<or> d = ''l2'' then ''l2''
           else if d = ''dot'' \<or> d = ''ip'' then ''ip''
           else ''cosine'')
    | _ \<Rightarrow> ''cosine'')"
    using t r unfolding getVectorStoreConfigFromEnv_def by (auto simp add: Let_def)
  then show ?thesis by (simp only: chroma_normalize)
qed

lemma workspace_chroma_distance:
  assumes "config_type (getWorkspaceVectorStoreConfigFromEnv e a) = ''chroma''"
  shows "distance (getWorkspaceVectorStoreConfigFromEnv e a) =
     Some (if map_option toLowerCase
                (js_or (WORKSPACE_VECTOR_STORE_DISTANCE e) (VECTOR_STORE_DISTANCE e))
              \<in> {Some ''euclidean'', Some ''l2''}
           then ''l2''
           else if map_option toLowerCase
                (js_or (WORKSPACE_VECTOR_STORE_DISTANCE e) (VECTOR_STORE_DISTANCE e))
              \<in> {Some ''dot'', Some ''ip''}
           then ''ip'' else ''cosine'')"
proof -
  have t: "js_or (WORKSPACE_VECTOR_STORE_TYPE e) (VECTOR_STORE_TYPE e) = Some ''chroma''"
    using assms by (rule workspace_branch)
  have r: "truthy_str (js_or (WORKSPACE_VECTOR_STORE_URL e) (VECTOR_STORE_URL e))
         \<or> truthy_str (js_or (WORKSPACE_VECTOR_STORE_HOST e) (VECTOR_STORE_HOST e))"
    using assms t
    by (auto simp add: getWorkspaceVectorStoreConfigFromEnv_def Let_def split: if_splits)
  have "distance (getWorkspaceVectorStoreConfigFromEnv e a) =
     Some (case js_or (WORKSPACE_VECTOR_STORE_DISTANCE e) (VECTOR_STORE_DISTANCE e) of
      Some (c # cs) \<Rightarrow>
        (let d = toLowerCase (c # cs) in
           if d = ''cosine'' then ''cosine''
           else if d = ''euclidean'' \<or> d = ''l2'' then ''l2''
           else if d = ''dot'' \<or> d = ''ip'' then ''ip''
           else ''cosine'')
    | _ \<Rightarrow> ''cosine'')"
    using t r unfolding getWorkspaceVectorStoreConfigFromEnv_def by (auto simp add: Let_def)
  then show ?thesis by (simp only: chroma_normalize)
qed

lemma default_reachable:
  "config_type (getVectorStoreConfigFromEnv e a) = ''qdrant'' \<Longrightarrow>
     truthy_str (VECTOR_STORE_URL e) \<or> truthy_str (VECTOR_STORE_HOST e)"
  "config_type (getVectorStoreConfigFromEnv e a) = ''milvus'' \<Longrightarrow>
     truthy_str (VECTOR_STORE_URL e) \<or> truthy_str (VECTOR_STORE_HOST e)"
  "config_type (getVectorStoreConfigFromEnv e a) = ''chroma'' \<Longrightarrow>
     truthy_str (VECTOR_STORE_URL e) \<or> truthy_str (VECTOR_STORE_HOST e)"
  "config_type (getVectorStoreConfigFromEnv e a) = ''pinecone'' \<Longrightarrow>
     truthy_str (VECTOR_STORE_API_KEY e)"
  by (auto simp add: getVectorStoreConfigFromEnv_def Let_def split: if_splits)

lemma workspace_reachable:
  "config_type (getWorkspaceVectorStoreConfigFromEnv e a) = ''qdrant'' \<Longrightarrow>
     truthy_str (js_or (WORKSPACE_VECTOR_STORE_URL e) (VECTOR_STORE_URL e))
     \<or> truthy_str (js_or (WORKSPACE_VECTOR_STORE_HOST e) (VECTOR_STORE_HOST e))"
  "config_type (getWorkspaceVectorStoreConfigFromEnv e a) = ''milvus'' \<Longrightarrow>
     truthy_str (js_or (WORKSPACE_VECTOR_STORE_URL e) (VECTOR_STORE_URL e))
     \<or> truthy_str (js_or (WORKSPACE_VECTOR_STORE_HOST e) (VECTOR_STORE_HOST e))"
  "config_type (getWorkspaceVectorStoreConfigFromEnv e a) = ''chroma'' \<Longrightarrow>
     truthy_str (js_or (WORKSPACE_VECTOR_STORE_URL e) (VECTOR_STORE_URL e))
     \<or> truthy_str (js_or (WORKSPACE_VECTOR_STORE_HOST e) (VECTOR_STORE_HOST e))"
  "config_type (getWorkspaceVectorStoreConfigFromEnv e a) = ''pinecone'' \<Longrightarrow>
     truthy_str (VECTOR_STORE_API_KEY e)"
  by (auto simp add: getWorkspaceVectorStoreConfigFromEnv_def Let_def split: if_splits)

lemma default_passthrough:
  "config_type (getVectorStoreConfigFromEnv e a) = ''qdrant'' \<Longrightarrow>
     distance (getVectorStoreConfigFromEnv e a) = VECTOR_STORE_DISTANCE e"
  "config_type (getVectorStoreConfigFromEnv e a) = ''pinecone'' \<Longrightarrow>
     metric (getVectorStoreConfigFromEnv e a) =
       js_or (PINECONE_METRIC e) (VECTOR_STORE_DISTANCE e)"
proof -
  assume h: "config_type (getVectorStoreConfigFromEnv e a) = ''qdrant''"
  from default_branch(1) [OF h] default_reachable(1) [OF h]
  show "distance (getVectorStoreConfigFromEnv e a) = VECTOR_STORE_DISTANCE e"
    unfolding getVectorStoreConfigFromEnv_def by (auto simp add: Let_def)
next
  assume h: "config_type (getVectorStoreConfigFromEnv e a) = ''pinecone''"
  from default_branch(4) [OF h] default_reachable(4) [OF h]
  show "metric (getVectorStoreConfigFromEnv e a) =
       js_or (PINECONE_METRIC e) (VECTOR_STORE_DISTANCE e)"
    unfolding getVectorStoreConfigFromEnv_def by (auto simp add: Let_def)
qed

lemma workspace_passthrough:
  "config_type (getWorkspaceVectorStoreConfigFromEnv e a) = ''qdrant'' \<Longrightarrow>
     distance (getWorkspaceVectorStoreConfigFromEnv e a) =
       js_or (WORKSPACE_VECTOR_STORE_DISTANCE e) (VECTOR_STORE_DISTANCE e)"
  "config_type (getWorkspaceVectorStoreConfigFromEnv e a) = ''pinecone'' \<Longrightarrow>
     metric (getWorkspaceVectorStoreConfigFromEnv e a) =
       js_or (PINECONE_METRIC e) (VECTOR_STORE_DISTANCE e)"
proof -
  assume h: "config_type (getWorkspaceVectorStoreConfigFromEnv e a) = ''qdrant''"
  from workspace_branch(1) [OF h] workspace_reachable(1) [OF h]
  show "distance (getWorkspaceVectorStoreConfigFromEnv e a) =
       js_or (WORKSPACE_VECTOR_STORE_DISTANCE e) (VECTOR_STORE_DISTANCE e)"
    unfolding getWorkspaceVectorStoreConfigFromEnv_def by (auto simp add: Let_def)
next
  assume h: "config_type (getWorkspaceVectorStoreConfigFromEnv e a) = ''pinecone''"
  from workspace_branch(4) [OF h] workspace_reachable(4) [OF h]
  show "metric (getWorkspaceVectorStoreConfigFromEnv e a) =
       js_or (PINECONE_METRIC e) (VECTOR_STORE_DISTANCE e)"
    unfolding getWorkspaceVectorStoreConfigFromEnv_def by (auto simp add: Let_def)
qed

lemma lower_EuClidean: "toLowerCase ''EuClidean'' = ''euclidean''"
  by (simp add: toLowerCase_def lower_char_def)

text \<open>
  Claim C6, as the code has it.  Only the chroma branch normalizes the distance.  A chroma
  configuration, from either resolver, has the distance \<^verbatim>\<open>l2\<close> when the environment value
  in lower case is \<^verbatim>\<open>euclidean\<close> or \<^verbatim>\<open>l2\<close>, \<^verbatim>\<open>ip\<close> when it is \<^verbatim>\<open>dot\<close> or
  \<^verbatim>\<open>ip\<close>, and \<^verbatim>\<open>cosine\<close> in every other case (the value \<^verbatim>\<open>cosine\<close>, an
  unrecognized value, an empty or an absent one).  A qdrant configuration carries the
  environment value as it is, and a pinecone configuration carries
  \<^verbatim>\<open>PINECONE_METRIC || VECTOR_STORE_DISTANCE\<close> as it is.  The environment value is
  \<^verbatim>\<open>VECTOR_STORE_DISTANCE\<close> for the default resolver and
  \<^verbatim>\<open>WORKSPACE_VECTOR_STORE_DISTANCE || VECTOR_STORE_DISTANCE\<close> for the workspace resolver.
\<close>

theorem distance_normalization:
  "(config_type (getVectorStoreConfigFromEnv e a) = ''chroma'' \<longrightarrow>
      distance (getVectorStoreConfigFromEnv e a) =
        Some (if map_option toLowerCase (VECTOR_STORE_DISTANCE e)
                   \<in> {Some ''euclidean'', Some ''l2''} then ''l2''
              else if map_option toLowerCase (VECTOR_STORE_DISTANCE e)
                   \<in> {Some ''dot'', Some ''ip''} then ''ip''
              else ''cosine''))
   \<and> (config_type (getWorkspaceVectorStoreConfigFromEnv e a) = ''chroma'' \<longrightarrow>
      distance (getWorkspaceVectorStoreConfigFromEnv e a) =
        Some (if map_option toLowerCase
                   (js_or (WORKSPACE_VECTOR_STORE_DISTANCE e) (VECTOR_STORE_DISTANCE e))
                   \<in> {Some ''euclidean'', Some ''l2''} then ''l2''
              else if map_option toLowerCase
                   (js_or (WORKSPACE_VECTOR_STORE_DISTANCE e) (VECTOR_STORE_DISTANCE e))
                   \<in> {Some ''dot'', Some ''ip''} then ''ip''
              else ''cosine''))
   \<and> (config_type (getVectorStoreConfigFromEnv e a) = ''qdrant'' \<longrightarrow>
      distance (getVectorStoreConfigFromEnv e a) = VECTOR_STORE_DISTANCE e)
   \<and> (config_type (getWorkspaceVectorStoreConfigFromEnv e a) = ''qdrant'' \<longrightarrow>
      distance (getWorkspaceVectorStoreConfigFromEnv e a) =
        js_or (WORKSPACE_VECTOR_STORE_DISTANCE e) (VECTOR_STORE_DISTANCE e))
   \<and> (config_type (getVectorStoreConfigFromEnv e a) = ''pinecone'' \<longrightarrow>
      metric (getVectorStoreConfigFromEnv e a) =
        js_or (PINECONE_METRIC e) (VECTOR_STORE_DISTANCE e))
   \<and> (config_type (getWorkspaceVectorStoreConfigFromEnv e a) = ''pinecone'' \<longrightarrow>
      metric (getWorkspaceVectorStoreConfigFromEnv e a) =
        js_or (PINECONE_METRIC e) (VECTOR_STORE_DISTANCE e))"
  using default_chroma_distance [of e a] workspace_chroma_distance [of e a]
    default_passthrough [of e a] workspace_passthrough [of e a]
  by blast

theorem distance_normalization_witness:
  "config_type (getVectorStoreConfigFromEnv
      (empty_env\<lparr>VECTOR_STORE_TYPE := Some ''chroma'', VECTOR_STORE_HOST := Some ''localhost'',
                 VECTOR_STORE_DISTANCE := Some ''EuClidean''\<rparr>) JSUndefined) = ''chroma''
   \<and> distance (getVectorStoreConfigFromEnv
      (empty_env\<lparr>VECTOR_STORE_TYPE := Some ''chroma'', VECTOR_STORE_HOST := Some ''localhost'',
                 VECTOR_STORE_DISTANCE := Some ''EuClidean''\<rparr>) JSUndefined) = Some ''l2''
   \<and> config_type (getWorkspaceVectorStoreConfigFromEnv
      (empty_env\<lparr>VECTOR_STORE_TYPE := Some ''chroma'', VECTOR_STORE_HOST := Some ''localhost'',
                 VECTOR_STORE_DISTANCE := Some ''EuClidean''\<rparr>) JSUndefined) = ''chroma''
   \<and> distance (getWorkspaceVectorStoreConfigFromEnv
      (empty_env\<lparr>VECTOR_STORE_TYPE := Some ''chroma'', VECTOR_STORE_HOST := Some ''localhost'',
                 VECTOR_STORE_DISTANCE := Some ''EuClidean''\<rparr>) JSUndefined) = Some ''l2''"
proof -
  let ?e = "empty_env\<lparr>VECTOR_STORE_TYPE := Some ''chroma'', VECTOR_STORE_HOST := Some ''localhost'',
                 VECTOR_STORE_DISTANCE := Some ''EuClidean''\<rparr>"
  have d: "config_type (getVectorStoreConfigFromEnv ?e JSUndefined) = ''chroma''"
    by (simp add: getVectorStoreConfigFromEnv_def Let_def empty_env_def truthy_str_def)
  have w: "config_type (getWorkspaceVectorStoreConfigFromEnv ?e JSUndefined) = ''chroma''"
    by (simp add: getWorkspaceVectorStoreConfigFromEnv_def Let_def empty_env_def truthy_str_def
        js_or_def)
  from distance_normalization [of ?e JSUndefined] d w show ?thesis
    by (simp add: empty_env_def js_or_def truthy_str_def lower_EuClidean)
qed

text \<open>
  The claim as stated covers every remote configuration with a distance.  A reachable qdrant
  backend with \<^verbatim>\<open>VECTOR_STORE_DISTANCE=Manhattan\<close> gets the distance \<^verbatim>\<open>Manhattan\<close>,
  which is none of the normalized names and is not replaced by \<^verbatim>\<open>cosine\<close>.
\<close>

theorem qdrant_distance_counterexample:
  "getVectorStoreConfigFromEnv
     (empty_env\<lparr>VECTOR_STORE_TYPE := Some ''qdrant'', VECTOR_STORE_COLLECTION := Some ''docs'',
                VECTOR_STORE_HOST := Some ''localhost'',
                VECTOR_STORE_DISTANCE := Some ''Manhattan''\<rparr>) JSUndefined =
   QdrantConfig (Some ''docs'') (Finite 1536) None (Some ''localhost'') None None
     (Some ''Manhattan'') None
   \<and> distance (getVectorStoreConfigFromEnv
     (empty_env\<lparr>VECTOR_STORE_TYPE := Some ''qdrant'', VECTOR_STORE_COLLECTION := Some ''docs'',
                VECTOR_STORE_HOST := Some ''localhost'',
                VECTOR_STORE_DISTANCE := Some ''Manhattan''\<rparr>) JSUndefined)
     \<notin> {Some ''cosine'', Some ''l2'', Some ''euclidean'', Some ''ip'', Some ''dot''}"
  by (simp add: getVectorStoreConfigFromEnv_def resolver_simps empty_env_def truthy_str_def
      getProp_primitive)

subsection \<open>Pinecone namespace of the workspace store\<close>

lemma workspace_pinecone_ns:
  assumes "config_type (getWorkspaceVectorStoreConfigFromEnv e a) = ''pinecone''"
  shows "namespace (getWorkspaceVectorStoreConfigFromEnv e a) =
           Some (case PINECONE_NAMESPACE e of
                   Some (c # cs) \<Rightarrow> (c # cs) @ ''-workspace''
                 | _ \<Rightarrow> ''workspace'')"
  using workspace_branch(4) [OF assms] workspace_reachable(4) [OF assms]
  unfolding getWorkspaceVectorStoreConfigFromEnv_def by (auto simp add: Let_def)

lemma default_pinecone_ns:
  assumes "config_type (getVectorStoreConfigFromEnv e a) = ''pinecone''"
  shows "namespace (getVectorStoreConfigFromEnv e a) = PINECONE_NAMESPACE e"
  using default_branch(4) [OF assms] default_reachable(4) [OF assms]
  unfolding getVectorStoreConfigFromEnv_def by (auto simp add: Let_def)

text \<open>
  Claim C10.  Whenever \<^verbatim>\<open>getWorkspaceVectorStoreConfigFromEnv\<close> returns a pinecone
  configuration, its namespace is \<^verbatim>\<open>PINECONE_NAMESPACE\<close> followed by \<^verbatim>\<open>-workspace\<close>
  when \<^verbatim>\<open>PINECONE_NAMESPACE\<close> is set and non-empty, and the string \<^verbatim>\<open>workspace\<close>
  otherwise.  It therefore differs from \<^verbatim>\<open>PINECONE_NAMESPACE\<close>, which is the namespace
  of every pinecone configuration the default resolver returns for the same environment.
\<close>

theorem workspace_pinecone_namespace:
  assumes "config_type (getWorkspaceVectorStoreConfigFromEnv e a) = ''pinecone''"
  shows "(\<forall>s. PINECONE_NAMESPACE e = Some s \<and> s \<noteq> [] \<longrightarrow>
            namespace (getWorkspaceVectorStoreConfigFromEnv e a) = Some (s @ ''-workspace''))
       \<and> (\<not> truthy_str (PINECONE_NAMESPACE e) \<longrightarrow>
            namespace (getWorkspaceVectorStoreConfigFromEnv e a) = Some ''workspace'')
       \<and> namespace (getWorkspaceVectorStoreConfigFromEnv e a) \<noteq> PINECONE_NAMESPACE e
       \<and> (config_type (getVectorStoreConfigFromEnv e a') = ''pinecone'' \<longrightarrow>
            namespace (getWorkspaceVectorStoreConfigFromEnv e a) \<noteq>
            namespace (getVectorStoreConfigFromEnv e a'))"
proof -
  note w = workspace_pinecone_ns [OF assms]
  have 1: "\<forall>s. PINECONE_NAMESPACE e = Some s \<and> s \<noteq> [] \<longrightarrow>
            namespace (getWorkspaceVectorStoreConfigFromEnv e a) = Some (s @ ''-workspace'')"
    using w by (auto split: list.splits)
  have 2: "\<not> truthy_str (PINECONE_NAMESPACE e) \<longrightarrow>
            namespace (getWorkspaceVectorStoreConfigFromEnv e a) = Some ''workspace''"
    using w by (auto simp add: truthy_str_def split: option.splits list.splits)
  have 3: "namespace (getWorkspaceVectorStoreConfigFromEnv e a) \<noteq> PINECONE_NAMESPACE e"
    using w by (auto split: option.splits list.splits)
  have 4: "config_type (getVectorStoreConfigFromEnv e a') = ''pinecone'' \<longrightarrow>
            namespace (getWorkspaceVectorStoreConfigFromEnv e a) \<noteq>
            namespace (getVectorStoreConfigFromEnv e a')"
    using 3 default_pinecone_ns [of e a'] by simp
  from 1 2 3 4 show ?thesis by blast
qed

theorem workspace_pinecone_namespace_witness:
  "config_type (getWorkspaceVectorStoreConfigFromEnv
      (empty_env\<lparr>VECTOR_STORE_TYPE := Some ''pinecone'', VECTOR_STORE_API_KEY := Some ''key'',
                 PINECONE_NAMESPACE := Some ''prod''\<rparr>) JSUndefined) = ''pinecone''
   \<and> namespace (getWorkspaceVectorStoreConfigFromEnv
      (empty_env\<lparr>VECTOR_STORE_TYPE := Some ''pinecone'', VECTOR_STORE_API_KEY := Some ''key'',
                 PINECONE_NAMESPACE := Some ''prod''\<rparr>) JSUndefined) = Some ''prod-workspace''
   \<and> config_type (getVectorStoreConfigFromEnv
      (empty_env\<lparr>VECTOR_STORE_TYPE := Some ''pinecone'', VECTOR_STORE_API_KEY := Some ''key'',
                 PINECONE_NAMESPACE := Some ''prod''\<rparr>) JSUndefined) = ''pinecone''
   \<and> namespace (getWorkspaceVectorStoreConfigFromEnv
      (empty_env\<lparr>VECTOR_STORE_TYPE := Some ''pinecone'', VECTOR_STORE_API_KEY := Some ''key'',
                 PINECONE_NAMESPACE := Some ''prod''\<rparr>) JSUndefined) \<noteq>
     namespace (getVectorStoreConfigFromEnv
      (empty_env\<lparr>VECTOR_STORE_TYPE := Some ''pinecone'', VECTOR_STORE_API_KEY := Some ''key'',
                 PINECONE_NAMESPACE := Some ''prod''\<rparr>) JSUndefined)
   \<and> config_type (getWorkspaceVectorStoreConfigFromEnv
      (empty_env\<lparr>VECTOR_STORE_TYPE := Some ''pinecone'', VECTOR_STORE_API_KEY := Some ''key''\<rparr>)
      JSUndefined) = ''pinecone''
   \<and> namespace (getWorkspaceVectorStoreConfigFromEnv
      (empty_env\<lparr>VECTOR_STORE_TYPE := Some ''pinecone'', VECTOR_STORE_API_KEY := Some ''key''\<rparr>)
      JSUndefined) = Some ''workspace''"
proof -
  let ?e = "empty_env\<lparr>VECTOR_STORE_TYPE := Some ''pinecone'', VECTOR_STORE_API_KEY := Some ''key'',
                 PINECONE_NAMESPACE := Some ''prod''\<rparr>"
  let ?f = "empty_env\<lparr>VECTOR_STORE_TYPE := Some ''pinecone'', VECTOR_STORE_API_KEY := Some ''key''\<rparr>"
  have w: "config_type (getWorkspaceVectorStoreConfigFromEnv ?e JSUndefined) = ''pinecone''"
    by (simp add: getWorkspaceVectorStoreConfigFromEnv_def Let_def empty_env_def truthy_str_def
        js_or_def)
  have d: "config_type (getVectorStoreConfigFromEnv ?e JSUndefined) = ''pinecone''"
    by (simp add: getVectorStoreConfigFromEnv_def Let_def empty_env_def truthy_str_def)
  have v: "config_type (getWorkspaceVectorStoreConfigFromEnv ?f JSUndefined) = ''pinecone''"
    by (simp add: getWorkspaceVectorStoreConfigFromEnv_def Let_def empty_env_def truthy_str_def
        js_or_def)
  have 1: "namespace (getWorkspaceVectorStoreConfigFromEnv ?e JSUndefined) = Some ''prod-workspace''"
    using workspace_pinecone_namespace [OF w, of JSUndefined] by (simp add: empty_env_def)
  have 2: "namespace (getWorkspaceVectorStoreConfigFromEnv ?e JSUndefined) \<noteq>
           namespace (getVectorStoreConfigFromEnv ?e JSUndefined)"
    using workspace_pinecone_namespace [OF w, of JSUndefined] d by blast
  have 3: "namespace (getWorkspaceVectorStoreConfigFromEnv ?f JSUndefined) = Some ''workspace''"
    using workspace_pinecone_namespace [OF v, of JSUndefined]
    by (simp add: empty_env_def truthy_str_def)
  from w d v 1 2 3 show ?thesis by blast
qed

subsection \<open>Field-by-field fallback of the workspace resolver\<close>

lemma workspace_maxVectors:
  "(case WORKSPACE_VECTOR_STORE_MAX_VECTORS e of
      Some n \<Rightarrow>
        if \<not> Number_isNaN (Some n) then n
        else (case VECTOR_STORE_MAX_VECTORS e of
                Some m \<Rightarrow> if \<not> Number_isNaN (Some m) then m else Finite 10000
              | None \<Rightarrow> Finite 10000)
    | None \<Rightarrow>
        (case VECTOR_STORE_MAX_VECTORS e of
           Some m \<Rightarrow> if \<not> Number_isNaN (Some m) then m else Finite 10000
         | None \<Rightarrow> Finite 10000)) =
   valid_or (WORKSPACE_VECTOR_STORE_MAX_VECTORS e)
     (valid_or (VECTOR_STORE_MAX_VECTORS e) (Finite 10000))"
  by (simp add: valid_or_def Number_isNaN_def split: option.splits)

lemma workspace_port:
  "(if Number_isNaN w then (if Number_isNaN p then None else p) else w) =
   (case w of
      None \<Rightarrow> None
    | Some n \<Rightarrow> if n = NaN then (if p = Some NaN then None else p) else Some n)"
  by (simp add: Number_isNaN_def split: option.splits)

lemma workspace_qdrant_result:
  assumes "js_or (WORKSPACE_VECTOR_STORE_TYPE e) (VECTOR_STORE_TYPE e) = Some ''qdrant''"
    and "truthy_str (js_or (WORKSPACE_VECTOR_STORE_URL e) (VECTOR_STORE_URL e))
         \<or> truthy_str (js_or (WORKSPACE_VECTOR_STORE_HOST e) (VECTOR_STORE_HOST e))"
  shows "\<exists>d. getWorkspaceVectorStoreConfigFromEnv e a =
     QdrantConfig (Some (js_or_lit (WORKSPACE_VECTOR_STORE_COLLECTION e) ''workspace_memory'')) d
       (js_or (WORKSPACE_VECTOR_STORE_URL e) (VECTOR_STORE_URL e))
       (js_or (WORKSPACE_VECTOR_STORE_HOST e) (VECTOR_STORE_HOST e))
       (case WORKSPACE_VECTOR_STORE_PORT e of
          None \<Rightarrow> None
        | Some n \<Rightarrow> if n = NaN
                    then (if VECTOR_STORE_PORT e = Some NaN then None else VECTOR_STORE_PORT e)
                    else Some n)
       (js_or (WORKSPACE_VECTOR_STORE_API_KEY e) (VECTOR_STORE_API_KEY e))
       (js_or (WORKSPACE_VECTOR_STORE_DISTANCE e) (VECTOR_STORE_DISTANCE e))
       (WORKSPACE_VECTOR_STORE_ON_DISK e)"
  using assms unfolding getWorkspaceVectorStoreConfigFromEnv_def
  by (auto simp add: Let_def workspace_port)

lemma workspace_milvus_result:
  assumes "js_or (WORKSPACE_VECTOR_STORE_TYPE e) (VECTOR_STORE_TYPE e) = Some ''milvus''"
    and "truthy_str (js_or (WORKSPACE_VECTOR_STORE_URL e) (VECTOR_STORE_URL e))
         \<or> truthy_str (js_or (WORKSPACE_VECTOR_STORE_HOST e) (VECTOR_STORE_HOST e))"
  shows "\<exists>d. getWorkspaceVectorStoreConfigFromEnv e a =
     MilvusConfig (Some (js_or_lit (WORKSPACE_VECTOR_STORE_COLLECTION e) ''workspace_memory'')) d
       (js_or (WORKSPACE_VECTOR_STORE_URL e) (VECTOR_STORE_URL e))
       (js_or (WORKSPACE_VECTOR_STORE_HOST e) (VECTOR_STORE_HOST e))
       (case WORKSPACE_VECTOR_STORE_PORT e of
          None \<Rightarrow> None
        | Some n \<Rightarrow> if n = NaN
                    then (if VECTOR_STORE_PORT e = Some NaN then None else VECTOR_STORE_PORT e)
                    else Some n)
       (js_or (WORKSPACE_VECTOR_STORE_USERNAME e) (VECTOR_STORE_USERNAME e))
       (js_or (WORKSPACE_VECTOR_STORE_PASSWORD e) (VECTOR_STORE_PASSWORD e))
       (js_or (WORKSPACE_VECTOR_STORE_API_KEY e) (VECTOR_STORE_API_KEY e))"
  using assms unfolding getWorkspaceVectorStoreConfigFromEnv_def
  by (auto simp add: Let_def workspace_port)

lemma workspace_chroma_result:
  assumes "js_or (WORKSPACE_VECTOR_STORE_TYPE e) (VECTOR_STORE_TYPE e) = Some ''chroma''"
    and "truthy_str (js_or (WORKSPACE_VECTOR_STORE_URL e) (VECTOR_STORE_URL e))
         \<or> truthy_str (js_or (WORKSPACE_VECTOR_STORE_HOST e) (VECTOR_STORE_HOST e))"
  shows "\<exists>d dm. getWorkspaceVectorStoreConfigFromEnv e a =
     ChromaConfig (Some (js_or_lit (WORKSPACE_VECTOR_STORE_COLLECTION e) ''workspace_memory'')) d
       (js_or (WORKSPACE_VECTOR_STORE_URL e) (VECTOR_STORE_URL e))
       (js_or (WORKSPACE_VECTOR_STORE_HOST e) (VECTOR_STORE_HOST e))
       (case WORKSPACE_VECTOR_STORE_PORT e of
          None \<Rightarrow> None
        | Some n \<Rightarrow> if n = NaN
                    then (if VECTOR_STORE_PORT e = Some NaN then None else VECTOR_STORE_PORT e)
                    else Some n)
       None dm"
  using assms unfolding getWorkspaceVectorStoreConfigFromEnv_def
  by (auto simp add: Let_def workspace_port)

lemma workspace_pinecone_result:
  assumes "js_or (WORKSPACE_VECTOR_STORE_TYPE e) (VECTOR_STORE_TYPE e) = Some ''pinecone''"
    and "truthy_str (VECTOR_STORE_API_KEY e)"
  shows "\<exists>d ns. getWorkspaceVectorStoreConfigFromEnv e a =
     PineconeConfig (Some (js_or_lit (WORKSPACE_VECTOR_STORE_COLLECTION e) ''workspace_memory'')) d
       (VECTOR_STORE_API_KEY e)
       (Some (js_or_lit (WORKSPACE_VECTOR_STORE_COLLECTION e) ''workspace_memory''))
       ns (js_or (PINECONE_METRIC e) (VECTOR_STORE_DISTANCE e))"
  using assms unfolding getWorkspaceVectorStoreConfigFromEnv_def
  by (auto simp add: Let_def)

lemma workspace_inmemory_result:
  assumes "(if js_or (WORKSPACE_VECTOR_STORE_TYPE e) (VECTOR_STORE_TYPE e)
                \<in> {Some ''qdrant'', Some ''milvus'', Some ''chroma''}
            then \<not> truthy_str (js_or (WORKSPACE_VECTOR_STORE_URL e) (VECTOR_STORE_URL e))
               \<and> \<not> truthy_str (js_or (WORKSPACE_VECTOR_STORE_HOST e) (VECTOR_STORE_HOST e))
            else js_or (WORKSPACE_VECTOR_STORE_TYPE e) (VECTOR_STORE_TYPE e) = Some ''pinecone''
               \<longrightarrow> \<not> truthy_str (VECTOR_STORE_API_KEY e))"
  shows "\<exists>d f. getWorkspaceVectorStoreConfigFromEnv e a =
     InMemoryConfig (Some (js_or_lit (WORKSPACE_VECTOR_STORE_COLLECTION e) ''workspace_memory'')) d
       (valid_or (WORKSPACE_VECTOR_STORE_MAX_VECTORS e)
          (valid_or (VECTOR_STORE_MAX_VECTORS e) (Finite 10000))) f
     \<and> (f = None \<longleftrightarrow> js_or (WORKSPACE_VECTOR_STORE_TYPE e) (VECTOR_STORE_TYPE e)
                \<notin> {Some ''qdrant'', Some ''milvus'', Some ''chroma'', Some ''pinecone''})"
  using assms unfolding getWorkspaceVectorStoreConfigFromEnv_def
  by (auto simp add: Let_def workspace_maxVectors split: if_splits)

text \<open>
  Claim C5, as the code has it.  In the configuration returned by
  \<^verbatim>\<open>getWorkspaceVectorStoreConfigFromEnv\<close>, each field is chosen on its own:
  \<^item> the backend type of a remote configuration is \<^verbatim>\<open>WORKSPACE_VECTOR_STORE_TYPE\<close> when
    that is non-empty and \<^verbatim>\<open>VECTOR_STORE_TYPE\<close> otherwise; an in-memory configuration
    carries no fallback tag exactly when that requested type is none of the four remote types;
  \<^item> the collection name is \<^verbatim>\<open>WORKSPACE_VECTOR_STORE_COLLECTION\<close> when non-empty and
    \<^verbatim>\<open>workspace_memory\<close> otherwise (\<^verbatim>\<open>VECTOR_STORE_COLLECTION\<close> is not read);
  \<^item> url and host (qdrant, milvus, chroma), the api key (qdrant's \<^verbatim>\<open>apiKey\<close>, milvus'
    \<^verbatim>\<open>token\<close>), the distance (qdrant), username and password (milvus) are the workspace
    variable when non-empty and the default variable otherwise;
  \<^item> maxVectors (in-memory) and, without an effective override, the dimension are the
    workspace variable when defined and not NaN, else the default variable when defined and
    not NaN, else 10000 and 1536;
  \<^item> the port, when \<^verbatim>\<open>WORKSPACE_VECTOR_STORE_PORT\<close> is a number, is that number unless
    it is NaN, and then \<^verbatim>\<open>VECTOR_STORE_PORT\<close> unless that is NaN, and then undefined.
\<close>

theorem workspace_field_fallback:
  "(case getWorkspaceVectorStoreConfigFromEnv e a of
      InMemoryConfig c d m f \<Rightarrow>
        c = Some (js_or_lit (WORKSPACE_VECTOR_STORE_COLLECTION e) ''workspace_memory'') \<and>
        m = valid_or (WORKSPACE_VECTOR_STORE_MAX_VECTORS e)
              (valid_or (VECTOR_STORE_MAX_VECTORS e) (Finite 10000)) \<and>
        (f = None \<longleftrightarrow> js_or (WORKSPACE_VECTOR_STORE_TYPE e) (VECTOR_STORE_TYPE e)
                \<notin> {Some ''qdrant'', Some ''milvus'', Some ''chroma'', Some ''pinecone''})
    | QdrantConfig c d u h p k dm od \<Rightarrow>
        js_or (WORKSPACE_VECTOR_STORE_TYPE e) (VECTOR_STORE_TYPE e) = Some ''qdrant'' \<and>
        c = Some (js_or_lit (WORKSPACE_VECTOR_STORE_COLLECTION e) ''workspace_memory'') \<and>
        u = js_or (WORKSPACE_VECTOR_STORE_URL e) (VECTOR_STORE_URL e) \<and>
        h = js_or (WORKSPACE_VECTOR_STORE_HOST e) (VECTOR_STORE_HOST e) \<and>
        k = js_or (WORKSPACE_VECTOR_STORE_API_KEY e) (VECTOR_STORE_API_KEY e) \<and>
        dm = js_or (WORKSPACE_VECTOR_STORE_DISTANCE e) (VECTOR_STORE_DISTANCE e) \<and>
        (\<forall>n. WORKSPACE_VECTOR_STORE_PORT e = Some n \<longrightarrow>
           p = (if n = NaN
                then (if VECTOR_STORE_PORT e = Some NaN then None else VECTOR_STORE_PORT e)
                else Some n))
    | MilvusConfig c d u h p un pw tk \<Rightarrow>
        js_or (WORKSPACE_VECTOR_STORE_TYPE e) (VECTOR_STORE_TYPE e) = Some ''milvus'' \<and>
        c = Some (js_or_lit (WORKSPACE_VECTOR_STORE_COLLECTION e) ''workspace_memory'') \<and>
        u = js_or (WORKSPACE_VECTOR_STORE_URL e) (VECTOR_STORE_URL e) \<and>
        h = js_or (WORKSPACE_VECTOR_STORE_HOST e) (VECTOR_STORE_HOST e) \<and>
        un = js_or (WORKSPACE_VECTOR_STORE_USERNAME e) (VECTOR_STORE_USERNAME e) \<and>
        pw = js_or (WORKSPACE_VECTOR_STORE_PASSWORD e) (VECTOR_STORE_PASSWORD e) \<and>
        tk = js_or (WORKSPACE_VECTOR_STORE_API_KEY e) (VECTOR_STORE_API_KEY e) \<and>
        (\<forall>n. WORKSPACE_VECTOR_STORE_PORT e = Some n \<longrightarrow>
           p = (if n = NaN
                then (if VECTOR_STORE_PORT e = Some NaN then None else VECTOR_STORE_PORT e)
                else Some n))
    | ChromaConfig c d u h p hs dm \<Rightarrow>
        js_or (WORKSPACE_VECTOR_STORE_TYPE e) (VECTOR_STORE_TYPE e) = Some ''chroma'' \<and>
        c = Some (js_or_lit (WORKSPACE_VECTOR_STORE_COLLECTION e) ''workspace_memory'') \<and>
        u = js_or (WORKSPACE_VECTOR_STORE_URL e) (VECTOR_STORE_URL e) \<and>
        h = js_or (WORKSPACE_VECTOR_STORE_HOST e) (VECTOR_STORE_HOST e) \<and>
        (\<forall>n. WORKSPACE_VECTOR_STORE_PORT e = Some n \<longrightarrow>
           p = (if n = NaN
                then (if VECTOR_STORE_PORT e = Some NaN then None else VECTOR_STORE_PORT e)
                else Some n))
    | PineconeConfig c d k i ns m \<Rightarrow>
        js_or (WORKSPACE_VECTOR_STORE_TYPE e) (VECTOR_STORE_TYPE e) = Some ''pinecone'' \<and>
        c = Some (js_or_lit (WORKSPACE_VECTOR_STORE_COLLECTION e) ''workspace_memory''))
   \<and> ((\<forall>n. getProp (getProp a ''embedding'') ''dimensions'' = JSNumber n \<longrightarrow> \<not> gt_zero n) \<longrightarrow>
      dimension (getWorkspaceVectorStoreConfigFromEnv e a) =
        valid_or (WORKSPACE_VECTOR_STORE_DIMENSION e)
          (valid_or (VECTOR_STORE_DIMENSION e) (Finite 1536)))"
proof (rule conjI)
  let ?t = "js_or (WORKSPACE_VECTOR_STORE_TYPE e) (VECTOR_STORE_TYPE e)"
  let ?reach = "truthy_str (js_or (WORKSPACE_VECTOR_STORE_URL e) (VECTOR_STORE_URL e))
         \<or> truthy_str (js_or (WORKSPACE_VECTOR_STORE_HOST e) (VECTOR_STORE_HOST e))"
  let ?P = "\<lambda>r. (case r of
      InMemoryConfig c d m f \<Rightarrow>
        c = Some (js_or_lit (WORKSPACE_VECTOR_STORE_COLLECTION e) ''workspace_memory'') \<and>
        m = valid_or (WORKSPACE_VECTOR_STORE_MAX_VECTORS e)
              (valid_or (VECTOR_STORE_MAX_VECTORS e) (Finite 10000)) \<and>
        (f = None \<longleftrightarrow> js_or (WORKSPACE_VECTOR_STORE_TYPE e) (VECTOR_STORE_TYPE e)
                \<notin> {Some ''qdrant'', Some ''milvus'', Some ''chroma'', Some ''pinecone''})
    | QdrantConfig c d u h p k dm od \<Rightarrow>
        js_or (WORKSPACE_VECTOR_STORE_TYPE e) (VECTOR_STORE_TYPE e) = Some ''qdrant'' \<and>
        c = Some (js_or_lit (WORKSPACE_VECTOR_STORE_COLLECTION e) ''workspace_memory'') \<and>
        u = js_or (WORKSPACE_VECTOR_STORE_URL e) (VECTOR_STORE_URL e) \<and>
        h = js_or (WORKSPACE_VECTOR_STORE_HOST e) (VECTOR_STORE_HOST e) \<and>
        k = js_or (WORKSPACE_VECTOR_STORE_API_KEY e) (VECTOR_STORE_API_KEY e) \<and>
        dm = js_or (WORKSPACE_VECTOR_STORE_DISTANCE e) (VECTOR_STORE_DISTANCE e) \<and>
        (\<forall>n. WORKSPACE_VECTOR_STORE_PORT e = Some n \<longrightarrow>
           p = (if n = NaN
                then (if VECTOR_STORE_PORT e = Some NaN then None else VECTOR_STORE_PORT e)
                else Some n))
    | MilvusConfig c d u h p un pw tk \<Rightarrow>
        js_or (WORKSPACE_VECTOR_STORE_TYPE e) (VECTOR_STORE_TYPE e) = Some ''milvus'' \<and>
        c = Some (js_or_lit (WORKSPACE_VECTOR_STORE_COLLECTION e) ''workspace_memory'') \<and>
        u = js_or (WORKSPACE_VECTOR_STORE_URL e) (VECTOR_STORE_URL e) \<and>
        h = js_or (WORKSPACE_VECTOR_STORE_HOST e) (VECTOR_STORE_HOST e) \<and>
        un = js_or (WORKSPACE_VECTOR_STORE_USERNAME e) (VECTOR_STORE_USERNAME e) \<and>
        pw = js_or (WORKSPACE_VECTOR_STORE_PASSWORD e) (VECTOR_STORE_PASSWORD e) \<and>
        tk = js_or (WORKSPACE_VECTOR_STORE_API_KEY e) (VECTOR_STORE_API_KEY e) \<and>
        (\<forall>n. WORKSPACE_VECTOR_STORE_PORT e = Some n \<longrightarrow>
           p = (if n = NaN
                then (if VECTOR_STORE_PORT e = Some NaN then None else VECTOR_STORE_PORT e)
                else Some n))
    | ChromaConfig c d u h p hs dm \<Rightarrow>
        js_or (WORKSPACE_VECTOR_STORE_TYPE e) (VECTOR_STORE_TYPE e) = Some ''chroma'' \<and>
        c = Some (js_or_lit (WORKSPACE_VECTOR_STORE_COLLECTION e) ''workspace_memory'') \<and>
        u = js_or (WORKSPACE_VECTOR_STORE_URL e) (VECTOR_STORE_URL e) \<and>
        h = js_or (WORKSPACE_VECTOR_STORE_HOST e) (VECTOR_STORE_HOST e) \<and>
        (\<forall>n. WORKSPACE_VECTOR_STORE_PORT e = Some n \<longrightarrow>
           p = (if n = NaN
                then (if VECTOR_STORE_PORT e = Some NaN then None else VECTOR_STORE_PORT e)
                else Some n))
    | PineconeConfig c d k i ns m \<Rightarrow>
        js_or (WORKSPACE_VECTOR_STORE_TYPE e) (VECTOR_STORE_TYPE e) = Some ''pinecone'' \<and>
        c = Some (js_or_lit (WORKSPACE_VECTOR_STORE_COLLECTION e) ''workspace_memory''))"
  consider
      (qdrant) "?t = Some ''qdrant''" "?reach"
    | (milvus) "?t = Some ''milvus''" "?reach"
    | (chroma) "?t = Some ''chroma''" "?reach"
    | (pinecone) "?t = Some ''pinecone''" "truthy_str (VECTOR_STORE_API_KEY e)"
    | (inmemory) "(if ?t \<in> {Some ''qdrant'', Some ''milvus'', Some ''chroma''}
            then \<not> truthy_str (js_or (WORKSPACE_VECTOR_STORE_URL e) (VECTOR_STORE_URL e))
               \<and> \<not> truthy_str (js_or (WORKSPACE_VECTOR_STORE_HOST e) (VECTOR_STORE_HOST e))
            else ?t = Some ''pinecone'' \<longrightarrow> \<not> truthy_str (VECTOR_STORE_API_KEY e))"
    by (cases "?t \<in> {Some ''qdrant'', Some ''milvus'', Some ''chroma''}") auto
  then show "?P (getWorkspaceVectorStoreConfigFromEnv e a)"
  proof cases
    case qdrant
    from workspace_qdrant_result [OF qdrant, of a] obtain d where
      "getWorkspaceVectorStoreConfigFromEnv e a =
         QdrantConfig (Some (js_or_lit (WORKSPACE_VECTOR_STORE_COLLECTION e) ''workspace_memory'')) d
       (js_or (WORKSPACE_VECTOR_STORE_URL e) (VECTOR_STORE_URL e))
       (js_or (WORKSPACE_VECTOR_STORE_HOST e) (VECTOR_STORE_HOST e))
       (case WORKSPACE_VECTOR_STORE_PORT e of
          None \<Rightarrow> None
        | Some n \<Rightarrow> if n = NaN
                    then (if VECTOR_STORE_PORT e = Some NaN then None else VECTOR_STORE_PORT e)
                    else Some n)
       (js_or (WORKSPACE_VECTOR_STORE_API_KEY e) (VECTOR_STORE_API_KEY e))
       (js_or (WORKSPACE_VECTOR_STORE_DISTANCE e) (VECTOR_STORE_DISTANCE e))
       (WORKSPACE_VECTOR_STORE_ON_DISK e)" by blast
    with qdrant(1) show ?thesis by simp
  next
    case milvus
    from workspace_milvus_result [OF milvus, of a] obtain d where
      "getWorkspaceVectorStoreConfigFromEnv e a =
     MilvusConfig (Some (js_or_lit (WORKSPACE_VECTOR_STORE_COLLECTION e) ''workspace_memory'')) d
       (js_or (WORKSPACE_VECTOR_STORE_URL e) (VECTOR_STORE_URL e))
       (js_or (WORKSPACE_VECTOR_STORE_HOST e) (VECTOR_STORE_HOST e))
       (case WORKSPACE_VECTOR_STORE_PORT e of
          None \<Rightarrow> None
        | Some n \<Rightarrow> if n = NaN
                    then (if VECTOR_STORE_PORT e = Some NaN then None else VECTOR_STORE_PORT e)
                    else Some n)
       (js_or (WORKSPACE_VECTOR_STORE_USERNAME e) (VECTOR_STORE_USERNAME e))
       (js_or (WORKSPACE_VECTOR_STORE_PASSWORD e) (VECTOR_STORE_PASSWORD e))
       (js_or (WORKSPACE_VECTOR_STORE_API_KEY e) (VECTOR_STORE_API_KEY e))" by blast
    with milvus(1) show ?thesis by simp
  next
    case chroma
    from workspace_chroma_result [OF chroma, of a] obtain d dm where
      "getWorkspaceVectorStoreConfigFromEnv e a =
     ChromaConfig (Some (js_or_lit (WORKSPACE_VECTOR_STORE_COLLECTION e) ''workspace_memory'')) d
       (js_or (WORKSPACE_VECTOR_STORE_URL e) (VECTOR_STORE_URL e))
       (js_or (WORKSPACE_VECTOR_STORE_HOST e) (VECTOR_STORE_HOST e))
       (case WORKSPACE_VECTOR_STORE_PORT e of
          None \<Rightarrow> None
        | Some n \<Rightarrow> if n = NaN
                    then (if VECTOR_STORE_PORT e = Some NaN then None else VECTOR_STORE_PORT e)
                    else Some n)
       None dm" by blast
    with chroma(1) show ?thesis by simp
  next
    case pinecone
    from workspace_pinecone_result [OF pinecone, of a] obtain d ns where
      "getWorkspaceVectorStoreConfigFromEnv e a =
     PineconeConfig (Some (js_or_lit (WORKSPACE_VECTOR_STORE_COLLECTION e) ''workspace_memory'')) d
       (VECTOR_STORE_API_KEY e)
       (Some (js_or_lit (WORKSPACE_VECTOR_STORE_COLLECTION e) ''workspace_memory''))
       ns (js_or (PINECONE_METRIC e) (VECTOR_STORE_DISTANCE e))" by blast
    with pinecone(1) show ?thesis by simp
  next
    case inmemory
    from workspace_inmemory_result [OF inmemory, of a] obtain d f where
      "getWorkspaceVectorStoreConfigFromEnv e a =
     InMemoryConfig (Some (js_or_lit (WORKSPACE_VECTOR_STORE_COLLECTION e) ''workspace_memory'')) d
       (valid_or (WORKSPACE_VECTOR_STORE_MAX_VECTORS e)
          (valid_or (VECTOR_STORE_MAX_VECTORS e) (Finite 10000))) f"
      and "f = None \<longleftrightarrow> js_or (WORKSPACE_VECTOR_STORE_TYPE e) (VECTOR_STORE_TYPE e)
                \<notin> {Some ''qdrant'', Some ''milvus'', Some ''chroma'', Some ''pinecone''}"
      by blast
    then show ?thesis by simp
  qed
next
  show "(\<forall>n. getProp (getProp a ''embedding'') ''dimensions'' = JSNumber n \<longrightarrow> \<not> gt_zero n) \<longrightarrow>
      dimension (getWorkspaceVectorStoreConfigFromEnv e a) =
        valid_or (WORKSPACE_VECTOR_STORE_DIMENSION e)
          (valid_or (VECTOR_STORE_DIMENSION e) (Finite 1536))"
    by (simp add: workspace_dimension split: jsval.splits)
qed

theorem workspace_field_fallback_witness:
  "config_type (getWorkspaceVectorStoreConfigFromEnv
      (empty_env\<lparr>VECTOR_STORE_TYPE := Some ''qdrant'', VECTOR_STORE_PORT := Some (Finite 6333),
                 VECTOR_STORE_API_KEY := Some ''key'',
                 WORKSPACE_VECTOR_STORE_HOST := Some ''ws-host'',
                 WORKSPACE_VECTOR_STORE_PORT := Some NaN\<rparr>) JSUndefined) = ''qdrant''
   \<and> collectionName (getWorkspaceVectorStoreConfigFromEnv
      (empty_env\<lparr>VECTOR_STORE_TYPE := Some ''qdrant'', VECTOR_STORE_PORT := Some (Finite 6333),
                 VECTOR_STORE_API_KEY := Some ''key'',
                 WORKSPACE_VECTOR_STORE_HOST := Some ''ws-host'',
                 WORKSPACE_VECTOR_STORE_PORT := Some NaN\<rparr>) JSUndefined) = Some ''workspace_memory''
   \<and> host (getWorkspaceVectorStoreConfigFromEnv
      (empty_env\<lparr>VECTOR_STORE_TYPE := Some ''qdrant'', VECTOR_STORE_PORT := Some (Finite 6333),
                 VECTOR_STORE_API_KEY := Some ''key'',
                 WORKSPACE_VECTOR_STORE_HOST := Some ''ws-host'',
                 WORKSPACE_VECTOR_STORE_PORT := Some NaN\<rparr>) JSUndefined) = Some ''ws-host''
   \<and> port (getWorkspaceVectorStoreConfigFromEnv
      (empty_env\<lparr>VECTOR_STORE_TYPE := Some ''qdrant'', VECTOR_STORE_PORT := Some (Finite 6333),
                 VECTOR_STORE_API_KEY := Some ''key'',
                 WORKSPACE_VECTOR_STORE_HOST := Some ''ws-host'',
                 WORKSPACE_VECTOR_STORE_PORT := Some NaN\<rparr>) JSUndefined) = Some (Finite 6333)
   \<and> apiKey (getWorkspaceVectorStoreConfigFromEnv
      (empty_env\<lparr>VECTOR_STORE_TYPE := Some ''qdrant'', VECTOR_STORE_PORT := Some (Finite 6333),
                 VECTOR_STORE_API_KEY := Some ''key'',
                 WORKSPACE_VECTOR_STORE_HOST := Some ''ws-host'',
                 WORKSPACE_VECTOR_STORE_PORT := Some NaN\<rparr>) JSUndefined) = Some ''key''
   \<and> dimension (getWorkspaceVectorStoreConfigFromEnv
      (empty_env\<lparr>VECTOR_STORE_TYPE := Some ''qdrant'', VECTOR_STORE_PORT := Some (Finite 6333),
                 VECTOR_STORE_API_KEY := Some ''key'',
                 WORKSPACE_VECTOR_STORE_HOST := Some ''ws-host'',
                 WORKSPACE_VECTOR_STORE_PORT := Some NaN\<rparr>) JSUndefined) = Finite 1536"
proof -
  let ?e = "empty_env\<lparr>VECTOR_STORE_TYPE := Some ''qdrant'', VECTOR_STORE_PORT := Some (Finite 6333),
                 VECTOR_STORE_API_KEY := Some ''key'',
                 WORKSPACE_VECTOR_STORE_HOST := Some ''ws-host'',
                 WORKSPACE_VECTOR_STORE_PORT := Some NaN\<rparr>"
  let ?r = "getWorkspaceVectorStoreConfigFromEnv ?e JSUndefined"
  have t: "config_type ?r = ''qdrant''"
    by (simp add: getWorkspaceVectorStoreConfigFromEnv_def Let_def empty_env_def truthy_str_def
        js_or_def)
  have f: "collectionName ?r = Some ''workspace_memory'' \<and> host ?r = Some ''ws-host''
         \<and> port ?r = Some (Finite 6333) \<and> apiKey ?r = Some ''key''"
    using workspace_field_fallback [of ?e JSUndefined] t
    by (cases ?r) (simp_all add: empty_env_def js_or_def js_or_lit_def truthy_str_def)
  have d: "dimension ?r = Finite 1536"
    using workspace_field_fallback [of ?e JSUndefined]
    by (simp add: getProp_primitive valid_or_def empty_env_def)
  from t f d show ?thesis by blast
qed

text \<open>
  The claim as stated lets the collection name fall back to the non-prefixed variable.  With
  \<^verbatim>\<open>VECTOR_STORE_COLLECTION=knowledge_memory\<close> and no workspace collection, the workspace
  resolver returns the collection name \<^verbatim>\<open>workspace_memory\<close>.
\<close>

theorem workspace_collection_counterexample:
  "WORKSPACE_VECTOR_STORE_COLLECTION
     (empty_env\<lparr>VECTOR_STORE_COLLECTION := Some ''knowledge_memory''\<rparr>) = None
   \<and> VECTOR_STORE_COLLECTION
     (empty_env\<lparr>VECTOR_STORE_COLLECTION := Some ''knowledge_memory''\<rparr>) = Some ''knowledge_memory''
   \<and> getWorkspaceVectorStoreConfigFromEnv
     (empty_env\<lparr>VECTOR_STORE_COLLECTION := Some ''knowledge_memory''\<rparr>) JSUndefined =
     InMemoryConfig (Some ''workspace_memory'') (Finite 1536) (Finite 10000) None
   \<and> collectionName (getWorkspaceVectorStoreConfigFromEnv
     (empty_env\<lparr>VECTOR_STORE_COLLECTION := Some ''knowledge_memory''\<rparr>) JSUndefined)
     \<noteq> Some ''knowledge_memory''"
  by (simp add: getWorkspaceVectorStoreConfigFromEnv_def resolver_simps empty_env_def truthy_str_def
      js_or_def js_or_lit_def getProp_primitive)

section \<open>Properties of the collection orchestration\<close>

lemma strip_all_None: "strip_one ws s = None \<Longrightarrow> strip_all ws s = s"
  by (subst strip_all.simps) simp

lemma strip_all_Some: "strip_one ws s = Some r \<Longrightarrow> strip_all ws s = strip_all ws r"
  by (subst strip_all.simps) simp

lemma strip_one_Nil: "strip_one ws [] = None"
proof -
  have "find (\<lambda>w. w \<noteq> [] \<and> take (length w) [] = w) ws = None"
    by (auto simp add: find_None_iff)
  then show ?thesis by (simp add: strip_one_def)
qed

lemma strip_all_Nil: "strip_all ws [] = []"
  by (simp add: strip_all_None strip_one_Nil)

lemma strip_one_space: "strip_one whitespace (CHR '' '' # s) = Some s"
  by (simp add: strip_one_def whitespace_def)

lemma trim_spaces: "trim ''   '' = []"
  by (simp add: trim_def strip_all_Some [OF strip_one_space] strip_all_Nil)

lemma trim_reflection_memory: "trim ''reflection_memory'' = ''reflection_memory''"
proof -
  have 1: "strip_one whitespace ''reflection_memory'' = None"
    by (simp add: strip_one_def whitespace_def)
  have 2: "strip_one (map rev whitespace) (rev ''reflection_memory'') = None"
    by (simp add: strip_one_def whitespace_def)
  show ?thesis
    by (simp only: trim_def strip_all_None [OF 1] strip_all_None [OF 2] rev_rev_ident)
qed

lemma trim_Nil: "trim [] = []"
  by (simp add: trim_def strip_all_Nil)

lemma reflection_blank:
  assumes "REFLECTION_VECTOR_STORE_COLLECTION e = None
           \<or> (\<exists>s. REFLECTION_VECTOR_STORE_COLLECTION e = Some s \<and> trim s = [])"
  shows "trim (js_or_lit (REFLECTION_VECTOR_STORE_COLLECTION e) '''') = []"
proof (cases "REFLECTION_VECTOR_STORE_COLLECTION e")
  case None
  then show ?thesis by (simp add: js_or_lit_def trim_Nil)
next
  case (Some s)
  with assms have "trim s = []" by simp
  moreover have "js_or_lit (Some s) '''' = s" by (cases s) (simp_all add: js_or_lit_def)
  ultimately show ?thesis using Some by simp
qed

subsection \<open>Reflection collection disabled\<close>

lemma described_manager_blank:
  assumes "trim (js_or_lit (REFLECTION_VECTOR_STORE_COLLECTION e) '''') = []"
    and "create ''knowledge'' config = Inr k"
  shows "createDualCollectionVectorStoreInternal (DualCollectionVectorManager create e) e config =
           ([Construct, Connect, GetStore ''knowledge''],
            Inr \<lparr>manager = \<lparr>baseConfig = config, handles = [(''knowledge'', k)],
                              attempts = [''knowledge''], tornDown = []\<rparr>,
                 knowledgeStore = k, reflectionStore = None\<rparr>)"
  using assms
  by (simp add: createDualCollectionVectorStoreInternal_def DualCollectionVectorManager_def)

text \<open>
  Claim C7.  Let \<^verbatim>\<open>REFLECTION_VECTOR_STORE_COLLECTION\<close> be unset, or empty after trimming.
  For every manager that connects and holds a knowledge store, the dual-collection
  orchestration returns normally: the result carries the manager, its knowledge store and
  \<^verbatim>\<open>reflectionStore: null\<close>, and the only calls made on the manager are the constructor,
  \<^verbatim>\<open>connect\<close> and \<^verbatim>\<open>getStore('knowledge')\<close>.  With the manager as the spec describes
  it, over a storage factory that constructs the knowledge collection, the knowledge
  collection is the only one a construction is attempted for: no construction attempt is made
  for the reflection collection.
\<close>

theorem reflection_disabled:
  assumes "REFLECTION_VECTOR_STORE_COLLECTION e = None
           \<or> (\<exists>s. REFLECTION_VECTOR_STORE_COLLECTION e = Some s \<and> trim s = [])"
  shows
    "(construct M config = Inr m0 \<and> connect M m0 = (Inr b, m1)
        \<and> getStore M m1 ''knowledge'' = Some ks \<longrightarrow>
      createDualCollectionVectorStoreInternal M e config =
        ([Construct, Connect, GetStore ''knowledge''],
         Inr \<lparr>manager = m1, knowledgeStore = ks, reflectionStore = None\<rparr>))
     \<and>
     (create ''knowledge'' config = Inr k \<longrightarrow>
      createDualCollectionVectorStoreInternal (DualCollectionVectorManager create e) e config =
        ([Construct, Connect, GetStore ''knowledge''],
         Inr \<lparr>manager = \<lparr>baseConfig = config, handles = [(''knowledge'', k)],
                           attempts = [''knowledge''], tornDown = []\<rparr>,
              knowledgeStore = k, reflectionStore = None\<rparr>)
      \<and> ''reflection'' \<notin> set (attempts (manager (projr (snd
            (createDualCollectionVectorStoreInternal (DualCollectionVectorManager create e) e
               config))))))"
proof -
  note blank = reflection_blank [OF assms]
  have 1: "construct M config = Inr m0 \<and> connect M m0 = (Inr b, m1)
        \<and> getStore M m1 ''knowledge'' = Some ks \<longrightarrow>
      createDualCollectionVectorStoreInternal M e config =
        ([Construct, Connect, GetStore ''knowledge''],
         Inr \<lparr>manager = m1, knowledgeStore = ks, reflectionStore = None\<rparr>)"
    using blank by (simp add: createDualCollectionVectorStoreInternal_def)
  have 2: "create ''knowledge'' config = Inr k \<longrightarrow>
      createDualCollectionVectorStoreInternal (DualCollectionVectorManager create e) e config =
        ([Construct, Connect, GetStore ''knowledge''],
         Inr \<lparr>manager = \<lparr>baseConfig = config, handles = [(''knowledge'', k)],
                           attempts = [''knowledge''], tornDown = []\<rparr>,
              knowledgeStore = k, reflectionStore = None\<rparr>)
      \<and> ''reflection'' \<notin> set (attempts (manager (projr (snd
            (createDualCollectionVectorStoreInternal (DualCollectionVectorManager create e) e
               config)))))"
    using described_manager_blank [OF blank, of create config k] by simp
  from 1 2 show ?thesis by blast
qed

theorem reflection_disabled_witness:
  "createDualCollectionVectorStoreInternal knowledge_manager
     (empty_env\<lparr>REFLECTION_VECTOR_STORE_COLLECTION := Some ''   ''\<rparr>)
     (InMemoryConfig (Some ''knowledge_memory'') (Finite 1536) (Finite 10000) None) =
   ([Construct, Connect, GetStore ''knowledge''],
    Inr \<lparr>manager = Suc 0, knowledgeStore = ''knowledge store'', reflectionStore = None\<rparr>)
   \<and> createDualCollectionVectorStoreInternal knowledge_manager empty_env
     (InMemoryConfig (Some ''knowledge_memory'') (Finite 1536) (Finite 10000) None) =
   ([Construct, Connect, GetStore ''knowledge''],
    Inr \<lparr>manager = Suc 0, knowledgeStore = ''knowledge store'', reflectionStore = None\<rparr>)
   \<and> createDualCollectionVectorStoreInternal
     (DualCollectionVectorManager sample_storage
        (empty_env\<lparr>REFLECTION_VECTOR_STORE_COLLECTION := Some ''   ''\<rparr>))
     (empty_env\<lparr>REFLECTION_VECTOR_STORE_COLLECTION := Some ''   ''\<rparr>)
     (InMemoryConfig (Some ''knowledge_memory'') (Finite 1536) (Finite 10000) None) =
   ([Construct, Connect, GetStore ''knowledge''],
    Inr \<lparr>manager =
           \<lparr>baseConfig =
              InMemoryConfig (Some ''knowledge_memory'') (Finite 1536) (Finite 10000) None,
            handles = [(''knowledge'', ''knowledge store'')],
            attempts = [''knowledge''], tornDown = []\<rparr>,
         knowledgeStore = ''knowledge store'', reflectionStore = None\<rparr>)"
proof -
  let ?e = "empty_env\<lparr>REFLECTION_VECTOR_STORE_COLLECTION := Some ''   ''\<rparr>"
  let ?c = "InMemoryConfig (Some ''knowledge_memory'') (Finite 1536) (Finite 10000) None"
  have b1: "REFLECTION_VECTOR_STORE_COLLECTION ?e = None
           \<or> (\<exists>s. REFLECTION_VECTOR_STORE_COLLECTION ?e = Some s \<and> trim s = [])"
    by (simp add: trim_spaces)
  have b2: "REFLECTION_VECTOR_STORE_COLLECTION empty_env = None
           \<or> (\<exists>s. REFLECTION_VECTOR_STORE_COLLECTION empty_env = Some s \<and> trim s = [])"
    by (simp add: empty_env_def)
  have 1: "createDualCollectionVectorStoreInternal knowledge_manager ?e ?c =
   ([Construct, Connect, GetStore ''knowledge''],
    Inr \<lparr>manager = Suc 0, knowledgeStore = ''knowledge store'', reflectionStore = None\<rparr>)"
    using reflection_disabled [OF b1, where M = knowledge_manager and config = ?c
        and ?m0.0 = 0 and b = True and ?m1.0 = "Suc 0" and ks = "''knowledge store''"
        and create = sample_storage and k = "''knowledge store''"]
    by (simp add: knowledge_manager_def)
  have 2: "createDualCollectionVectorStoreInternal knowledge_manager empty_env ?c =
   ([Construct, Connect, GetStore ''knowledge''],
    Inr \<lparr>manager = Suc 0, knowledgeStore = ''knowledge store'', reflectionStore = None\<rparr>)"
    using reflection_disabled [OF b2, where M = knowledge_manager and config = ?c
        and ?m0.0 = 0 and b = True and ?m1.0 = "Suc 0" and ks = "''knowledge store''"
        and create = sample_storage and k = "''knowledge store''"]
    by (simp add: knowledge_manager_def)
  have 3: "createDualCollectionVectorStoreInternal (DualCollectionVectorManager sample_storage ?e)
             ?e ?c =
   ([Construct, Connect, GetStore ''knowledge''],
    Inr \<lparr>manager = \<lparr>baseConfig = ?c, handles = [(''knowledge'', ''knowledge store'')],
            attempts = [''knowledge''], tornDown = []\<rparr>,
         knowledgeStore = ''knowledge store'', reflectionStore = None\<rparr>)"
    using reflection_disabled [OF b1, where M = knowledge_manager and config = ?c
        and ?m0.0 = 0 and b = True and ?m1.0 = "Suc 0" and ks = "''knowledge store''"
        and create = sample_storage and k = "''knowledge store''"]
    by (simp add: sample_storage_def)
  from 1 2 3 show ?thesis by blast
qed

text \<open>
  With a reflection collection configured, the described manager does attempt both
  constructions, and the reflection store is returned.
\<close>

lemma described_manager_enabled:
  assumes "trim (js_or_lit (REFLECTION_VECTOR_STORE_COLLECTION e) '''') \<noteq> []"
    and "create ''knowledge'' config = Inr k"
    and "create ''reflection'' config = Inr r"
  shows "createDualCollectionVectorStoreInternal (DualCollectionVectorManager create e) e config =
           ([Construct, Connect, GetStore ''knowledge'', GetStore ''reflection''],
            Inr \<lparr>manager = \<lparr>baseConfig = config,
                              handles = [(''knowledge'', k), (''reflection'', r)],
                              attempts = [''knowledge'', ''reflection''], tornDown = []\<rparr>,
                 knowledgeStore = k, reflectionStore = Some r\<rparr>)"
  using assms
  by (simp add: createDualCollectionVectorStoreInternal_def DualCollectionVectorManager_def)

subsection \<open>Cleanup when connecting fails\<close>

text \<open>
  With a reflection collection configured, \<^verbatim>\<open>createDualCollectionVectorStoreInternal\<close>
  answers a rejected \<^verbatim>\<open>connect\<close> by calling \<^verbatim>\<open>disconnect\<close> and then throwing the error of
  \<^verbatim>\<open>connect\<close>, whatever \<^verbatim>\<open>disconnect\<close> does.
  \<^verbatim>\<open>createMultiCollectionVectorStoreInternal\<close> does so always.
\<close>

lemma swallow:
  "(case p of (Inl x, m) \<Rightarrow> r | (Inr y, m) \<Rightarrow> r) = r"
  by (simp split: prod.splits sum.splits)

lemma dual_cleanup_on_connect_failure:
  assumes "trim (js_or_lit (REFLECTION_VECTOR_STORE_COLLECTION e) '''') \<noteq> []"
    and "construct M config = Inr m0"
    and "connect M m0 = (Inl err, m1)"
  shows "createDualCollectionVectorStoreInternal M e config =
           ([Construct, Connect, Disconnect], Inl (Rejected err))"
  using assms
  by (simp add: createDualCollectionVectorStoreInternal_def swallow)

lemma multi_cleanup_on_connect_failure:
  assumes "construct M config = Inr m0"
    and "connect M m0 = (Inl err, m1)"
  shows "createMultiCollectionVectorStoreInternal M config =
           ([Construct, Connect, Disconnect], Inl (Rejected err))"
  using assms
  by (simp add: createMultiCollectionVectorStoreInternal_def swallow)

lemma multi_failure_ends_with_disconnect:
  assumes "construct M config = Inr m0"
    and "snd (createMultiCollectionVectorStoreInternal M config) = Inl x"
  shows "last (fst (createMultiCollectionVectorStoreInternal M config)) = Disconnect"
proof (cases "connect M m0")
  case (Pair r m1)
  show ?thesis
  proof (cases r)
    case (Inl err)
    with Pair assms(1) show ?thesis
      by (simp add: multi_cleanup_on_connect_failure)
  next
    case (Inr ok)
    show ?thesis
    proof (cases ok)
      case False
      with Inr Pair assms(1) show ?thesis
        by (simp add: createMultiCollectionVectorStoreInternal_def swallow)
    next
      case True
      show ?thesis
      proof (cases "getStore M m1 ''knowledge''")
        case None
        with True Inr Pair assms(1) show ?thesis
          by (simp add: createMultiCollectionVectorStoreInternal_def swallow)
      next
        case (Some k)
        with True Inr Pair assms show ?thesis
          by (simp add: createMultiCollectionVectorStoreInternal_def)
      qed
    qed
  qed
qed

text \<open>
  Claim C2 asks for this cleanup on every orchestration call in which connecting fails.
  Without a reflection collection, \<^verbatim>\<open>createDualCollectionVectorStoreInternal\<close> awaits
  \<^verbatim>\<open>connect\<close> outside any \<^verbatim>\<open>try\<close>: when \<^verbatim>\<open>connect\<close> rejects, the error is thrown and no
  result is returned, but \<^verbatim>\<open>disconnect\<close> is never called.  The same manager and
  configuration with a reflection collection set do get the cleanup.
\<close>

theorem dual_disabled_connect_failure_no_cleanup:
  "createDualCollectionVectorStoreInternal refusing_manager empty_env
     (QdrantConfig (Some ''knowledge_memory'') (Finite 1536) None (Some ''localhost'')
        (Some (Finite 6333)) None None None) =
   ([Construct, Connect], Inl (Rejected ''ECONNREFUSED''))
   \<and> createDualCollectionVectorStoreInternal refusing_manager
     (empty_env\<lparr>REFLECTION_VECTOR_STORE_COLLECTION := Some ''reflection_memory''\<rparr>)
     (QdrantConfig (Some ''knowledge_memory'') (Finite 1536) None (Some ''localhost'')
        (Some (Finite 6333)) None None None) =
   ([Construct, Connect, Disconnect], Inl (Rejected ''ECONNREFUSED''))"
proof -
  note t = trim_reflection_memory
  show ?thesis
    by (simp add: createDualCollectionVectorStoreInternal_def refusing_manager_def empty_env_def
        js_or_lit_def trim_Nil t)
qed

section \<open>Single flight\<close>

lemma getOrCreate_in_flight:
  "entries c k = Some (InFlight i out) \<Longrightarrow>
   foldl (\<lambda>s (caller, f). getOrCreate k f caller s) c calls =
     c\<lparr>waiting := waiting c @ map (\<lambda>(caller, f). (caller, k)) calls\<rparr>"
proof (induction calls arbitrary: c)
  case Nil
  then show ?case by simp
next
  case (Cons x calls)
  obtain caller f where x: "x = (caller, f)" by (cases x)
  let ?c = "c\<lparr>waiting := waiting c @ [(caller, k)]\<rparr>"
  have step: "getOrCreate k f caller c = ?c"
    using Cons.prems by (simp add: getOrCreate_def)
  have "entries ?c k = Some (InFlight i out)"
    using Cons.prems by simp
  from Cons.IH [OF this] step x show ?case by simp
qed

lemma getOrCreate_first:
  assumes "entries c k = None"
  shows "foldl (\<lambda>s (caller, f). getOrCreate k f caller s) c ((caller, f) # calls) =
     c\<lparr>entries := (entries c)(k \<mapsto> InFlight (length (invocations c)) (f ())),
       invocations := invocations c @ [k],
       waiting := waiting c @ map (\<lambda>(caller, f). (caller, k)) ((caller, f) # calls)\<rparr>"
proof -
  let ?c = "c\<lparr>entries := (entries c)(k \<mapsto> InFlight (length (invocations c)) (f ())),
            invocations := invocations c @ [k],
            waiting := waiting c @ [(caller, k)]\<rparr>"
  have step: "getOrCreate k f caller c = ?c"
    using assms by (simp add: getOrCreate_def)
  have "entries ?c k = Some (InFlight (length (invocations c)) (f ()))" by simp
  from getOrCreate_in_flight [OF this, of calls] step show ?thesis by simp
qed

lemma single_flight_generic:
  assumes "entries c k = None"
  shows "invocations (foldl (\<lambda>s (caller, f). getOrCreate k f caller s) c ((caller, f) # calls))
           = invocations c @ [k]
       \<and> invocations (settle k (foldl (\<lambda>s (caller, f). getOrCreate k f caller s) c
             ((caller, f) # calls))) = invocations c @ [k]
       \<and> (\<forall>x \<in> set ((caller, f) # calls).
            settled (settle k (foldl (\<lambda>s (caller, f). getOrCreate k f caller s) c
              ((caller, f) # calls))) (fst x) =
            Some (case f () of Inl err \<Rightarrow> Inl err
                  | Inr v \<Rightarrow> Inr (length (invocations c), v)))"
proof -
  note eq = getOrCreate_first [OF assms, of caller f calls]
  show ?thesis
    unfolding eq
    by (cases "f ()") (auto simp add: settle_def)
qed

lemma dual_calls_generic:
  assumes "\<forall>(caller, e, a) \<in> set calls.
             dualCollectionCacheKey csk e (getVectorStoreConfigFromEnv e a) = k"
  shows "foldl (\<lambda>s (caller, e, a). createDualCollectionVectorStoreFromEnv csk M e a caller s) c calls =
         foldl (\<lambda>s (caller, f). getOrCreate k f caller s) c
           (map (\<lambda>(caller, e, a).
                  (caller, \<lambda>u. snd (createDualCollectionVectorStoreInternal M e
                                      (getVectorStoreConfigFromEnv e a)))) calls)"
  using assms
proof (induction calls arbitrary: c)
  case Nil
  then show ?case by simp
next
  case (Cons x calls)
  obtain caller e a where x: "x = (caller, e, a)" by (cases x)
  with Cons.prems have k: "dualCollectionCacheKey csk e (getVectorStoreConfigFromEnv e a) = k"
    and rest: "\<forall>(caller, e, a) \<in> set calls.
             dualCollectionCacheKey csk e (getVectorStoreConfigFromEnv e a) = k"
    by simp_all
  from Cons.IH [OF rest] x k show ?case
    by (simp add: createDualCollectionVectorStoreFromEnv_def Let_def)
qed

lemma multi_calls_generic:
  assumes "\<forall>(caller, e, a) \<in> set calls.
             multiCollectionCacheKey csk e (getVectorStoreConfigFromEnv e a) = k"
  shows "foldl (\<lambda>s (caller, e, a). createMultiCollectionVectorStoreFromEnv csk M e a caller s) c calls =
         foldl (\<lambda>s (caller, f). getOrCreate k f caller s) c
           (map (\<lambda>(caller, e, a).
                  (caller, \<lambda>u. snd (createMultiCollectionVectorStoreInternal M
                                      (getVectorStoreConfigFromEnv e a)))) calls)"
  using assms
proof (induction calls arbitrary: c)
  case Nil
  then show ?case by simp
next
  case (Cons x calls)
  obtain caller e a where x: "x = (caller, e, a)" by (cases x)
  with Cons.prems have k: "multiCollectionCacheKey csk e (getVectorStoreConfigFromEnv e a) = k"
    and rest: "\<forall>(caller, e, a) \<in> set calls.
             multiCollectionCacheKey csk e (getVectorStoreConfigFromEnv e a) = k"
    by simp_all
  from Cons.IH [OF rest] x k show ?case
    by (simp add: createMultiCollectionVectorStoreFromEnv_def Let_def)
qed

lemma dual_single_flight:
  assumes "calls = (caller0, e0, a0) # rest"
    and "\<forall>(caller, e, a) \<in> set calls.
           dualCollectionCacheKey csk e (getVectorStoreConfigFromEnv e a) = k"
    and "entries c k = None"
  shows "invocations
           (foldl (\<lambda>s (caller, e, a). createDualCollectionVectorStoreFromEnv csk M e a caller s) c calls)
           = invocations c @ [k]
       \<and> invocations (settle k
           (foldl (\<lambda>s (caller, e, a). createDualCollectionVectorStoreFromEnv csk M e a caller s) c calls))
           = invocations c @ [k]
       \<and> (\<forall>x \<in> set calls.
            settled (settle k
              (foldl (\<lambda>s (caller, e, a). createDualCollectionVectorStoreFromEnv csk M e a caller s) c
                 calls)) (fst x) =
            Some (case snd (createDualCollectionVectorStoreInternal M e0
                              (getVectorStoreConfigFromEnv e0 a0)) of
                    Inl err \<Rightarrow> Inl err
                  | Inr v \<Rightarrow> Inr (length (invocations c), v)))"
proof -
  let ?f = "\<lambda>(caller, e, a).
              (caller, \<lambda>u::unit. snd (createDualCollectionVectorStoreInternal M e
                                  (getVectorStoreConfigFromEnv e a)))"
  have m: "map ?f calls = (caller0, \<lambda>u. snd (createDualCollectionVectorStoreInternal M e0
                                  (getVectorStoreConfigFromEnv e0 a0))) # map ?f rest"
    using assms(1) by simp
  have fst: "\<And>x. fst (?f x) = fst x" by (auto simp add: split_def)
  from single_flight_generic [OF assms(3), of caller0
      "\<lambda>u. snd (createDualCollectionVectorStoreInternal M e0 (getVectorStoreConfigFromEnv e0 a0))"
      "map ?f rest"]
  show ?thesis
    unfolding dual_calls_generic [OF assms(2)] m
    using assms(1) by (auto simp add: split_def)
qed

lemma multi_single_flight:
  assumes "calls = (caller0, e0, a0) # rest"
    and "\<forall>(caller, e, a) \<in> set calls.
           multiCollectionCacheKey csk e (getVectorStoreConfigFromEnv e a) = k"
    and "entries c k = None"
  shows "invocations
           (foldl (\<lambda>s (caller, e, a). createMultiCollectionVectorStoreFromEnv csk M e a caller s) c calls)
           = invocations c @ [k]
       \<and> invocations (settle k
           (foldl (\<lambda>s (caller, e, a). createMultiCollectionVectorStoreFromEnv csk M e a caller s) c calls))
           = invocations c @ [k]
       \<and> (\<forall>x \<in> set calls.
            settled (settle k
              (foldl (\<lambda>s (caller, e, a). createMultiCollectionVectorStoreFromEnv csk M e a caller s) c
                 calls)) (fst x) =
            Some (case snd (createMultiCollectionVectorStoreInternal M (getVectorStoreConfigFromEnv e0 a0)) of
                    Inl err \<Rightarrow> Inl err
                  | Inr v \<Rightarrow> Inr (length (invocations c), v)))"
proof -
  let ?f = "\<lambda>(caller, e, a).
              (caller, \<lambda>u::unit. snd (createMultiCollectionVectorStoreInternal M (getVectorStoreConfigFromEnv e a)))"
  have m: "map ?f calls = (caller0, \<lambda>u. snd (createMultiCollectionVectorStoreInternal M (getVectorStoreConfigFromEnv e0 a0))) # map ?f rest"
    using assms(1) by simp
  have fst: "\<And>x. fst (?f x) = fst x" by (auto simp add: split_def)
  from single_flight_generic [OF assms(3), of caller0
      "\<lambda>u. snd (createMultiCollectionVectorStoreInternal M (getVectorStoreConfigFromEnv e0 a0))"
      "map ?f rest"]
  show ?thesis
    unfolding multi_calls_generic [OF assms(2)] m
    using assms(1) by (auto simp add: split_def)
qed

text \<open>
  Claim C3.  Let \<open>N \<ge> 1\<close> callers enter \<^verbatim>\<open>createDualCollectionVectorStoreFromEnv\<close> one
  after the other before the construction settles (logically concurrent calls), all computing
  the same cache key, on a cache that has no entry for that key.  Then the factory closure is
  invoked exactly once (the invocation log grows by this one key, and settling adds none),
  and when the construction settles every caller observes the outcome of that single
  invocation: the same numbered instance when it succeeded, the same error when it failed.
  The same holds for \<^verbatim>\<open>createMultiCollectionVectorStoreFromEnv\<close>.
\<close>

theorem single_flight:
  assumes "calls = (caller0, e0, a0) # rest"
  shows
    "((\<forall>(caller, e, a) \<in> set calls.
         dualCollectionCacheKey csk e (getVectorStoreConfigFromEnv e a) = kd)
      \<and> entries cd kd = None \<longrightarrow>
      invocations
        (foldl (\<lambda>s (caller, e, a). createDualCollectionVectorStoreFromEnv csk M e a caller s) cd calls)
        = invocations cd @ [kd]
      \<and> invocations (settle kd
          (foldl (\<lambda>s (caller, e, a). createDualCollectionVectorStoreFromEnv csk M e a caller s) cd calls))
        = invocations cd @ [kd]
      \<and> (\<forall>x \<in> set calls.
            settled (settle kd
              (foldl (\<lambda>s (caller, e, a). createDualCollectionVectorStoreFromEnv csk M e a caller s) cd
                 calls)) (fst x) =
            Some (case snd (createDualCollectionVectorStoreInternal M e0
                              (getVectorStoreConfigFromEnv e0 a0)) of
                    Inl err \<Rightarrow> Inl err
                  | Inr v \<Rightarrow> Inr (length (invocations cd), v))))
     \<and>
     ((\<forall>(caller, e, a) \<in> set calls.
         multiCollectionCacheKey csk e (getVectorStoreConfigFromEnv e a) = km)
      \<and> entries cm km = None \<longrightarrow>
      invocations
        (foldl (\<lambda>s (caller, e, a). createMultiCollectionVectorStoreFromEnv csk M e a caller s) cm calls)
        = invocations cm @ [km]
      \<and> invocations (settle km
          (foldl (\<lambda>s (caller, e, a). createMultiCollectionVectorStoreFromEnv csk M e a caller s) cm calls))
        = invocations cm @ [km]
      \<and> (\<forall>x \<in> set calls.
            settled (settle km
              (foldl (\<lambda>s (caller, e, a). createMultiCollectionVectorStoreFromEnv csk M e a caller s) cm
                 calls)) (fst x) =
            Some (case snd (createMultiCollectionVectorStoreInternal M
                              (getVectorStoreConfigFromEnv e0 a0)) of
                    Inl err \<Rightarrow> Inl err
                  | Inr v \<Rightarrow> Inr (length (invocations cm), v))))"
  using dual_single_flight [OF assms, of csk kd cd M] multi_single_flight [OF assms, of csk km cm M]
  by blast

lemma empty_env_config:
  "getVectorStoreConfigFromEnv empty_env JSUndefined =
     InMemoryConfig None (Finite 1536) (Finite 10000) None"
  by (simp add: getVectorStoreConfigFromEnv_def resolver_simps empty_env_def getProp_primitive)

lemma knowledge_manager_dual:
  "createDualCollectionVectorStoreInternal knowledge_manager empty_env config =
     ([Construct, Connect, GetStore ''knowledge''],
      Inr \<lparr>manager = Suc 0, knowledgeStore = ''knowledge store'', reflectionStore = None\<rparr>)"
  by (simp add: createDualCollectionVectorStoreInternal_def knowledge_manager_def empty_env_def
      js_or_lit_def trim_Nil)

lemma knowledge_manager_multi:
  "createMultiCollectionVectorStoreInternal knowledge_manager config =
     ([Construct, Connect, GetStore ''knowledge'', GetStore ''reflection'', GetStore ''workspace''],
      Inr \<lparr>manager = Suc 0, knowledgeStore = ''knowledge store'', reflectionStore = None,
           workspaceStore = None\<rparr>)"
  by (simp add: createMultiCollectionVectorStoreInternal_def knowledge_manager_def)

theorem single_flight_witness:
  "invocations
     (foldl (\<lambda>s (caller, e, a).
               createDualCollectionVectorStoreFromEnv Pair knowledge_manager e a caller s)
        empty_cache concurrent_calls)
     = [dualCollectionCacheKey Pair empty_env (getVectorStoreConfigFromEnv empty_env JSUndefined)]
   \<and> settled (settle
          (dualCollectionCacheKey Pair empty_env (getVectorStoreConfigFromEnv empty_env JSUndefined))
          (foldl (\<lambda>s (caller, e, a).
                    createDualCollectionVectorStoreFromEnv Pair knowledge_manager e a caller s)
             empty_cache concurrent_calls)) (0) =
        Some (Inr (0, \<lparr>manager = Suc 0, knowledgeStore = ''knowledge store'',
                   reflectionStore = None\<rparr>))
   \<and> settled (settle
          (dualCollectionCacheKey Pair empty_env (getVectorStoreConfigFromEnv empty_env JSUndefined))
          (foldl (\<lambda>s (caller, e, a).
                    createDualCollectionVectorStoreFromEnv Pair knowledge_manager e a caller s)
             empty_cache concurrent_calls)) (Suc 0) =
        Some (Inr (0, \<lparr>manager = Suc 0, knowledgeStore = ''knowledge store'',
                   reflectionStore = None\<rparr>))
   \<and> settled (settle
          (dualCollectionCacheKey Pair empty_env (getVectorStoreConfigFromEnv empty_env JSUndefined))
          (foldl (\<lambda>s (caller, e, a).
                    createDualCollectionVectorStoreFromEnv Pair knowledge_manager e a caller s)
             empty_cache concurrent_calls)) (2) =
        Some (Inr (0, \<lparr>manager = Suc 0, knowledgeStore = ''knowledge store'',
                   reflectionStore = None\<rparr>))
   \<and> invocations
     (foldl (\<lambda>s (caller, e, a).
               createMultiCollectionVectorStoreFromEnv Pair knowledge_manager e a caller s)
        empty_cache concurrent_calls)
     = [multiCollectionCacheKey Pair empty_env (getVectorStoreConfigFromEnv empty_env JSUndefined)]
   \<and> settled (settle
          (multiCollectionCacheKey Pair empty_env (getVectorStoreConfigFromEnv empty_env JSUndefined))
          (foldl (\<lambda>s (caller, e, a).
                    createMultiCollectionVectorStoreFromEnv Pair knowledge_manager e a caller s)
             empty_cache concurrent_calls)) (0) =
        Some (Inr (0, \<lparr>manager = Suc 0, knowledgeStore = ''knowledge store'',
                   reflectionStore = None, workspaceStore = None\<rparr>))
   \<and> settled (settle
          (multiCollectionCacheKey Pair empty_env (getVectorStoreConfigFromEnv empty_env JSUndefined))
          (foldl (\<lambda>s (caller, e, a).
                    createMultiCollectionVectorStoreFromEnv Pair knowledge_manager e a caller s)
             empty_cache concurrent_calls)) (Suc 0) =
        Some (Inr (0, \<lparr>manager = Suc 0, knowledgeStore = ''knowledge store'',
                   reflectionStore = None, workspaceStore = None\<rparr>))
   \<and> settled (settle
          (multiCollectionCacheKey Pair empty_env (getVectorStoreConfigFromEnv empty_env JSUndefined))
          (foldl (\<lambda>s (caller, e, a).
                    createMultiCollectionVectorStoreFromEnv Pair knowledge_manager e a caller s)
             empty_cache concurrent_calls)) (2) =
        Some (Inr (0, \<lparr>manager = Suc 0, knowledgeStore = ''knowledge store'',
                   reflectionStore = None, workspaceStore = None\<rparr>))"
proof -
  have c: "concurrent_calls =
     (0, empty_env, JSUndefined) # [(1, empty_env, JSUndefined), (2, empty_env, JSUndefined)]"
    by (simp add: concurrent_calls_def)
  have s: "set concurrent_calls =
     {(0, empty_env, JSUndefined), (1, empty_env, JSUndefined), (2, empty_env, JSUndefined)}"
    by (simp add: concurrent_calls_def)
  have e: "entries (empty_cache :: ('k, 'e, 'v) ServiceCache) k = None" for k
    by (simp add: empty_cache_def)
  have i: "invocations (empty_cache :: ('k, 'e, 'v) ServiceCache) = []"
    by (simp add: empty_cache_def)
  from single_flight [OF c,
      where csk = Pair and M = knowledge_manager and cd = empty_cache and cm = empty_cache
        and kd = "dualCollectionCacheKey Pair empty_env
                    (getVectorStoreConfigFromEnv empty_env JSUndefined)"
        and km = "multiCollectionCacheKey Pair empty_env
                    (getVectorStoreConfigFromEnv empty_env JSUndefined)"]
  show ?thesis
    by (simp add: s e i knowledge_manager_dual knowledge_manager_multi)
qed

end
